theory Spec2Isabelle
  imports Main "HOL-Library.Word"
begin

unbundle bit_operations_syntax

section \<open>The UNIX stream protocol layer (proto_uxst.c)\<close>

text \<open>
  The functions of proto_uxst.c are modelled as pure functions.  Everything a function
  asks of the operating system or of another module is answered by an environment record
  (one field per call site: a call site is reached at most once per invocation), and
  everything it does to the outside world is recorded, in program order, in a list of
  events.  Mutated C objects (the listener, the connection, the message buffer) are passed
  in and returned updated.
\<close>

subsection \<open>errno and results of system calls\<close>

text \<open>The errno values that the file tests by name; every other value is \<open>EOTHER n\<close>.\<close>

datatype errno =
    ENOENT | ENFILE | EMFILE | ENOBUFS | ENOMEM | EAFNOSUPPORT | EPROTONOSUPPORT
  | EINPROGRESS | EALREADY | EISCONN | EAGAIN | EADDRINUSE | EADDRNOTAVAIL | ETIMEDOUT
  | ECONNREFUSED | ENETUNREACH | EACCES | EPERM | EOTHER nat

text \<open>
  A system call either returns a value or fails (returns -1, or a negative value) with an
  errno.  \<open>socket()\<close> returns a non-negative descriptor on success, hence \<open>nat sysret\<close>.
\<close>

datatype 'a sysret = Ret 'a | Err errno

subsection \<open>Printing with the format directives of the file\<close>

function show_nat :: "nat \<Rightarrow> string" where
  "show_nat n = (if n < 10 then [''0123456789'' ! n]
                 else show_nat (n div 10) @ [''0123456789'' ! (n mod 10)])"
  by pat_completeness auto
termination
  by (relation "measure (\<lambda>n. n)") auto

declare show_nat.simps [simp del]

text \<open>The directive \<^verbatim>\<open>%d\<close>.\<close>

definition show_int :: "int \<Rightarrow> string" where
  "show_int i = (if i < 0 then CHR ''-'' # show_nat (nat (- i)) else show_nat (nat i))"

definition NUL :: char where
  "NUL = CHR 0x00"

definition LF :: char where
  "LF = CHR 0x0A"

text \<open>The directive \<^verbatim>\<open>%s\<close> applied to a character array: the bytes before the first NUL.\<close>

definition c_str :: "char list \<Rightarrow> string" where
  "c_str bytes = takeWhile (\<lambda>c. c \<noteq> NUL) bytes"

subsection \<open>Events\<close>

datatype loglevel = LOG_EMERG | LOG_ERR

text \<open>
  One constructor per call that leaves the function.  \<open>E_socket\<close> carries the value
  that \<open>socket()\<close> returned; the other events carry the arguments of the call.
\<close>

datatype event =
    E_sock_find_compatible_fd
  | E_unlink string
  | E_link string string
  | E_rename string string
  | E_socket int
  | E_fcntl_nonblock int
  | E_fcntl_cloexec int
  | E_bind int "char list"
  | E_chown string int int
  | E_chmod string int
  | E_getsockopt_acceptconn int
  | E_listen int int
  | E_close int
  | E_fd_insert int "64 word"
  | E_fd_exported int
  | E_fd_delete int
  | E_setsockopt_sndbuf int int
  | E_setsockopt_rcvbuf int int
  | E_connect int
  | E_qfprintf string
  | E_ha_alert string
  | E_send_log string loglevel string
  | E_conn_ctrl_init int
  | E_linger_risk_reset int
  | E_fd_want_send int
  | E_fd_cant_send int
  | E_fd_cant_recv int
  | E_conn_xprt_init
  | E_conn_full_close int

text \<open>The descriptors that a sequence of events leaves open, starting from \<open>fds\<close>.

  Modelled from the spec: \<open>conn_full_close\<close> and \<open>fd_delete\<close> are not in proto_uxst.c;
  the spec says that the first "fully tears down the connection" and that unbinding
  "releases the descriptor", so both close the descriptor they are given.\<close>

fun open_fds :: "event list \<Rightarrow> int list \<Rightarrow> int list" where
  "open_fds [] fds = fds"
| "open_fds (E_socket fd # es) fds = open_fds es (if 0 \<le> fd then fd # fds else fds)"
| "open_fds (E_close fd # es) fds = open_fds es (removeAll fd fds)"
| "open_fds (E_conn_full_close fd # es) fds = open_fds es (removeAll fd fds)"
| "open_fds (E_fd_delete fd # es) fds = open_fds es (removeAll fd fds)"
| "open_fds (e # es) fds = open_fds es fds"

fun is_send_log :: "event \<Rightarrow> bool" where
  "is_send_log (E_send_log be lvl m) = True"
| "is_send_log e = False"

subsection \<open>Process-wide settings\<close>

text \<open>
  The globals that the file reads: \<open>global.maxsock\<close>, \<open>master\<close>, \<open>pid\<close>,
  \<open>global.tune.server_sndbuf\<close>, \<open>global.tune.server_rcvbuf\<close>, \<open>all_threads_mask\<close>;
  the platform constants \<open>MAXPATHLEN\<close> and \<open>sizeof(addr.sun_path)\<close>; and the helper
  \<open>thread_mask\<close>, which is defined in another file and taken as a parameter.
\<close>

record globals =
  maxsock :: int
  master :: int
  pid :: int
  server_sndbuf :: int
  server_rcvbuf :: int
  all_threads_mask :: "64 word"
  thread_mask :: "64 word \<Rightarrow> 64 word"
  MAXPATHLEN :: nat
  sun_path_size :: nat

subsection \<open>Connections\<close>

record proxy =
  px_id :: string

record server =
  srv_proxy :: proxy

text \<open>\<open>conn->target\<close>: a proxy, a server, or an object of any other type (or none).\<close>

datatype target = OBJ_TYPE_PROXY proxy | OBJ_TYPE_SERVER server | OBJ_TYPE_other nat

text \<open>The values of \<open>conn->err_code\<close> that the file assigns, \<open>CO_ER_NONE\<close> (no error
  recorded), and any other member of the enumeration.\<close>

datatype co_er =
    CO_ER_NONE | CO_ER_CONF_FDLIM | CO_ER_PROC_FDLIM | CO_ER_SYS_FDLIM | CO_ER_SYS_MEMLIM
  | CO_ER_NOPROTO | CO_ER_SOCK_ERR | CO_ER_FREE_PORTS | CO_ER_ADDR_INUSE | CO_ER_other nat

text \<open>The return values of connect.\<close>

datatype sf_err =
    SF_ERR_NONE | SF_ERR_SRVTO | SF_ERR_SRVCL | SF_ERR_PRXCOND | SF_ERR_RESOURCE
  | SF_ERR_INTERNAL

text \<open>Modelled from the spec: the header that defines the connection flags is not among
  the sources.  The spec lists them as members of one bitmask (error,
  waiting-for-L4-connect, address-to-be-set, send-proxy-preamble-pending); they are
  modelled as four distinct single bits of the 32-bit flags word, and
  \<open>CONNECT_HAS_DATA\<close> as the lowest bit of the \<open>flags\<close> argument.\<close>

definition CO_FL_ADDR_TO_SET :: "32 word" where
  "CO_FL_ADDR_TO_SET = 0x00002000"

definition CO_FL_ERROR :: "32 word" where
  "CO_FL_ERROR = 0x00100000"

definition CO_FL_WAIT_L4_CONN :: "32 word" where
  "CO_FL_WAIT_L4_CONN = 0x00400000"

definition CO_FL_SEND_PROXY :: "32 word" where
  "CO_FL_SEND_PROXY = 0x01000000"

definition CONNECT_HAS_DATA :: "32 word" where
  "CONNECT_HAS_DATA = 0x00000001"

record connection =
  target :: target
  co_flags :: "32 word"
  err_code :: co_er
  handle_fd :: int
  send_proxy_ofs :: int

text \<open>What the outside answers during one call of connect.\<close>

record connect_env =
  ce_socket :: "nat sysret"
  ce_fcntl_nonblock :: "unit sysret"
  ce_fcntl_cloexec :: "unit sysret"
  ce_connect :: "unit sysret"
  ce_conn_xprt_init :: int

record connect_result =
  outcome :: sf_err
  conn :: connection
  cflags :: "32 word"
  trace :: "event list"

text \<open>The \<open>switch\<close> on \<open>obj_type(conn->target)\<close>: the backend \<open>be\<close>, or the default case.\<close>

fun target_backend :: "target \<Rightarrow> proxy option" where
  "target_backend (OBJ_TYPE_PROXY p) = Some p"
| "target_backend (OBJ_TYPE_SERVER s) = Some (srv_proxy s)"
| "target_backend (OBJ_TYPE_other k) = None"

text \<open>The branch taken when \<open>socket()\<close> returned -1.\<close>

definition socket_failed :: "globals \<Rightarrow> proxy \<Rightarrow> errno \<Rightarrow> co_er \<times> event list" where
  "socket_failed g be e =
    (if e = ENFILE then
       (CO_ER_SYS_FDLIM,
        [E_send_log (px_id be) LOG_EMERG
           (''Proxy '' @ px_id be @ '' reached system FD limit (maxsock='' @
            show_int (maxsock g) @ ''). Please check system tunables.'' @ [LF])])
     else if e = EMFILE then
       (CO_ER_PROC_FDLIM,
        [E_send_log (px_id be) LOG_EMERG
           (''Proxy '' @ px_id be @ '' reached process FD limit (maxsock='' @
            show_int (maxsock g) @ ''). Please check 'ulimit-n' and restart.'' @ [LF])])
     else if e = ENOBUFS \<or> e = ENOMEM then
       (CO_ER_SYS_MEMLIM,
        [E_send_log (px_id be) LOG_EMERG
           (''Proxy '' @ px_id be @ '' reached system memory limit (maxsock='' @
            show_int (maxsock g) @ ''). Please check system tunables.'' @ [LF])])
     else if e = EAFNOSUPPORT \<or> e = EPROTONOSUPPORT then (CO_ER_NOPROTO, [])
     else (CO_ER_SOCK_ERR, []))"

text \<open>The end of the function, from \<open>conn->flags |= CO_FL_ADDR_TO_SET\<close> on; \<open>c\<close> is the
  connection and \<open>tr\<close> the events so far.

  Modelled from the spec: \<open>conn_ctrl_init\<close>, \<open>conn_xprt_init\<close> and \<open>conn_full_close\<close>
  are defined in other files.  The spec describes them as registering the descriptor with
  the transport-control layer, finalising the higher-layer transport initialisation, and
  fully tearing down the connection.  They are recorded as calls, \<open>conn_xprt_init\<close> is
  answered by the environment, and none of them changes the fields of the connection that
  this file reads.\<close>

definition connect_established ::
  "connect_env \<Rightarrow> int \<Rightarrow> 32 word \<Rightarrow> connection \<Rightarrow> event list \<Rightarrow> connect_result" where
  "connect_established env fd fl c tr =
    (let c1 = c\<lparr>co_flags := co_flags c OR CO_FL_ADDR_TO_SET\<rparr>;
         c2 = (if send_proxy_ofs c1 \<noteq> 0
               then c1\<lparr>co_flags := co_flags c1 OR CO_FL_SEND_PROXY\<rparr> else c1);
         tr1 = tr @ [E_conn_ctrl_init fd, E_linger_risk_reset fd];
         tr2 = (if co_flags c2 AND CO_FL_WAIT_L4_CONN \<noteq> 0
                then tr1 @ [E_fd_want_send fd, E_fd_cant_send fd, E_fd_cant_recv fd]
                else tr1)
     in if ce_conn_xprt_init env < 0 then
          \<lparr>outcome = SF_ERR_RESOURCE,
           conn = c2\<lparr>co_flags := co_flags c2 OR CO_FL_ERROR\<rparr>,
           cflags = fl,
           trace = tr2 @ [E_conn_xprt_init, E_conn_full_close (handle_fd c2)]\<rparr>
        else
          \<lparr>outcome = SF_ERR_NONE, conn = c2, cflags = fl, trace = tr2 @ [E_conn_xprt_init]\<rparr>)"

text \<open>The call of \<open>connect()\<close> and the classification of its errno.\<close>

definition connect_issue ::
  "connect_env \<Rightarrow> proxy \<Rightarrow> int \<Rightarrow> 32 word \<Rightarrow> connection \<Rightarrow> event list \<Rightarrow> connect_result" where
  "connect_issue env be fd fl c tr =
    (case ce_connect env of
       Ret u \<Rightarrow>
         connect_established env fd fl
           (c\<lparr>co_flags := co_flags c AND NOT CO_FL_WAIT_L4_CONN\<rparr>) (tr @ [E_connect fd])
     | Err e \<Rightarrow>
         if e = EINPROGRESS \<or> e = EALREADY then
           connect_established env fd fl
             (c\<lparr>co_flags := co_flags c OR CO_FL_WAIT_L4_CONN\<rparr>) (tr @ [E_connect fd])
         else if e = EISCONN then
           connect_established env fd fl
             (c\<lparr>co_flags := co_flags c AND NOT CO_FL_WAIT_L4_CONN\<rparr>) (tr @ [E_connect fd])
         else if e = EAGAIN \<or> e = EADDRINUSE \<or> e = EADDRNOTAVAIL then
           (let (msg, code) =
                  (if e = EAGAIN \<or> e = EADDRNOTAVAIL
                   then (''can't connect to destination unix socket, check backlog size on the server'',
                         CO_ER_FREE_PORTS)
                   else (''local address already in use'', CO_ER_ADDR_INUSE));
                line = ''Connect() failed for backend '' @ px_id be @ '': '' @ msg @ ''.'' @ [LF]
            in \<lparr>outcome = SF_ERR_RESOURCE,
                conn = c\<lparr>err_code := code, co_flags := co_flags c OR CO_FL_ERROR\<rparr>,
                cflags = fl,
                trace = tr @ [E_connect fd, E_qfprintf line, E_close fd,
                              E_send_log (px_id be) LOG_ERR line]\<rparr>)
         else if e = ETIMEDOUT then
           \<lparr>outcome = SF_ERR_SRVTO,
            conn = c\<lparr>err_code := CO_ER_SOCK_ERR, co_flags := co_flags c OR CO_FL_ERROR\<rparr>,
            cflags = fl,
            trace = tr @ [E_connect fd, E_close fd]\<rparr>
         else
           \<lparr>outcome = SF_ERR_SRVCL,
            conn = c\<lparr>err_code := CO_ER_SOCK_ERR, co_flags := co_flags c OR CO_FL_ERROR\<rparr>,
            cflags = fl,
            trace = tr @ [E_connect fd, E_close fd]\<rparr>)"

text \<open>The function \<open>uxst_connect_server(conn, flags)\<close>.\<close>

definition uxst_connect_server ::
  "globals \<Rightarrow> connect_env \<Rightarrow> connection \<Rightarrow> 32 word \<Rightarrow> connect_result" where
  "uxst_connect_server g env conn0 flags0 =
    (case target_backend (target conn0) of
       None \<Rightarrow>
         \<lparr>outcome = SF_ERR_INTERNAL,
          conn = conn0\<lparr>co_flags := co_flags conn0 OR CO_FL_ERROR\<rparr>,
          cflags = flags0, trace = []\<rparr>
     | Some be \<Rightarrow>
        (case ce_socket env of
           Err e \<Rightarrow>
             (let (code, logs) = socket_failed g be e
              in \<lparr>outcome = SF_ERR_RESOURCE,
                  conn = conn0\<lparr>handle_fd := - 1, err_code := code,
                              co_flags := co_flags conn0 OR CO_FL_ERROR\<rparr>,
                  cflags = flags0,
                  trace = [E_socket (- 1), E_qfprintf (''Cannot get a server socket.'' @ [LF])]
                          @ logs\<rparr>)
         | Ret n \<Rightarrow>
             (let fd = int n; c = conn0\<lparr>handle_fd := fd\<rparr> in
              if fd \<ge> maxsock g then
                \<lparr>outcome = SF_ERR_PRXCOND,
                 conn = c\<lparr>err_code := CO_ER_CONF_FDLIM, co_flags := co_flags c OR CO_FL_ERROR\<rparr>,
                 cflags = flags0,
                 trace = [E_socket fd,
                          E_ha_alert (''socket(): not enough free sockets. Raise -n argument. Giving up.'' @ [LF]),
                          E_close fd]\<rparr>
              else if ce_fcntl_nonblock env \<noteq> Ret () then
                \<lparr>outcome = SF_ERR_INTERNAL,
                 conn = c\<lparr>err_code := CO_ER_SOCK_ERR, co_flags := co_flags c OR CO_FL_ERROR\<rparr>,
                 cflags = flags0,
                 trace = [E_socket fd, E_fcntl_nonblock fd,
                          E_qfprintf (''Cannot set client socket to non blocking mode.'' @ [LF]),
                          E_close fd]\<rparr>
              else if master g = 1 \<and> ce_fcntl_cloexec env \<noteq> Ret () then
                \<lparr>outcome = SF_ERR_INTERNAL,
                 conn = c\<lparr>err_code := CO_ER_SOCK_ERR, co_flags := co_flags c OR CO_FL_ERROR\<rparr>,
                 cflags = flags0,
                 trace = [E_socket fd, E_fcntl_nonblock fd, E_fcntl_cloexec fd,
                          E_ha_alert (''Cannot set CLOEXEC on client socket.'' @ [LF]),
                          E_close fd]\<rparr>
              else
                (let fl = (if send_proxy_ofs c \<noteq> 0 then flags0 OR CONNECT_HAS_DATA else flags0);
                     tr = [E_socket fd, E_fcntl_nonblock fd]
                          @ (if master g = 1 then [E_fcntl_cloexec fd] else [])
                          @ (if server_sndbuf g \<noteq> 0
                             then [E_setsockopt_sndbuf fd (server_sndbuf g)] else [])
                          @ (if server_rcvbuf g \<noteq> 0
                             then [E_setsockopt_rcvbuf fd (server_rcvbuf g)] else [])
                 in connect_issue env be fd fl c tr))))"

subsection \<open>Listeners\<close>

text \<open>Modelled from the spec: the header that defines the listener states is not among
  the sources.  The spec gives the lifecycle INIT, ASSIGNED, LISTEN and compares states
  by order; \<open>li_rank\<close> is the position of a state in the enumeration.\<close>

datatype li_state =
    LI_NEW | LI_INIT | LI_ASSIGNED | LI_PAUSED | LI_LISTEN | LI_READY | LI_FULL | LI_LIMITED

fun li_rank :: "li_state \<Rightarrow> nat" where
  "li_rank LI_NEW = 0"
| "li_rank LI_INIT = 1"
| "li_rank LI_ASSIGNED = 2"
| "li_rank LI_PAUSED = 3"
| "li_rank LI_LISTEN = 4"
| "li_rank LI_READY = 5"
| "li_rank LI_FULL = 6"
| "li_rank LI_LIMITED = 7"

text \<open>Modelled from the spec: the header with the listener options is missing;
  \<open>LI_O_INHERITED\<close> ("arrived via inheritance") is one bit of the options word.\<close>

definition LI_O_INHERITED :: "32 word" where
  "LI_O_INHERITED = 0x2000"

text \<open>Modelled from the spec: the header with the bind-time error bits is missing; the
  spec describes "a bitmask combining none/retryable/fatal/abort", and the file also uses
  the alert bit.\<close>

definition ERR_NONE :: "32 word" where
  "ERR_NONE = 0x00"

definition ERR_RETRYABLE :: "32 word" where
  "ERR_RETRYABLE = 0x01"

definition ERR_FATAL :: "32 word" where
  "ERR_FATAL = 0x02"

definition ERR_ABORT :: "32 word" where
  "ERR_ABORT = 0x04"

definition ERR_ALERT :: "32 word" where
  "ERR_ALERT = 0x10"

record bind_conf =
  ux_uid :: int
  ux_gid :: int
  ux_mode :: int
  bind_thread :: "64 word"

text \<open>
  \<open>li_sun_path\<close> holds the bytes of \<open>sun_path\<close> in \<open>listener->addr\<close>; the bytes of the
  array that the list leaves out are NUL.
\<close>

record listener =
  li_state :: li_state
  li_fd :: int
  li_sun_path :: "char list"
  li_options :: "32 word"
  li_bind_conf :: bind_conf

text \<open>\<open>path[0]\<close>.\<close>

fun first_byte :: "char list \<Rightarrow> char" where
  "first_byte [] = NUL"
| "first_byte (c # cs) = c"

text \<open>An array of \<open>n\<close> bytes that starts with \<open>s\<close> and is NUL after it.\<close>

definition pad :: "nat \<Rightarrow> char list \<Rightarrow> char list" where
  "pad n s = take n (s @ replicate n NUL)"

text \<open>
  The message buffer \<open>errmsg\<close> is the memory at the pointer, indexed by offset.
  \<open>snprintf(buf, n, ...)\<close> with the formatted text \<open>s\<close> writes at most \<open>n - 1\<close>
  characters of it and a NUL, and nothing when \<open>n\<close> is 0.  The \<open>int\<close> length that
  bind is given is converted to \<open>size_t\<close> (64 bits).
\<close>

type_synonym buffer = "nat \<Rightarrow> char"

definition snprintf_buf :: "buffer \<Rightarrow> nat \<Rightarrow> string \<Rightarrow> buffer" where
  "snprintf_buf buf n s =
    (if n = 0 then buf
     else (\<lambda>i. if i < length (take (n - 1) s) then take (n - 1) s ! i
               else if i = length (take (n - 1) s) then NUL
               else buf i))"

definition size_t_of_int :: "int \<Rightarrow> nat" where
  "size_t_of_int i = nat (i mod 2 ^ 64)"

text \<open>What the outside answers during one call of bind.  \<open>be_find_fd\<close> is the result of
  \<open>sock_find_compatible_fd\<close>, \<open>be_backlog\<close> that of \<open>listener_backlog\<close>,
  \<open>be_unlink_temp\<close> and \<open>be_unlink_back\<close> are the two calls of \<open>unlink\<close> that remove
  orphans, \<open>be_rename\<close> is the switch of the sockets and \<open>be_rename_back\<close> the
  restoration after it failed.  The results of the other calls of \<open>unlink\<close> and of
  \<open>close\<close> are not looked at.\<close>

record bind_env =
  be_find_fd :: int
  be_unlink_temp :: "unit sysret"
  be_unlink_back :: "unit sysret"
  be_link :: "unit sysret"
  be_socket :: "nat sysret"
  be_fcntl :: "unit sysret"
  be_bind :: "unit sysret"
  be_chown :: "unit sysret"
  be_chmod :: "unit sysret"
  be_getsockopt :: "int sysret"
  be_backlog :: int
  be_listen :: "unit sysret"
  be_rename :: "unit sysret"
  be_rename_back :: "unit sysret"

record bind_result =
  b_err :: "32 word"
  b_listener :: listener
  b_errmsg :: buffer
  b_trace :: "event list"

text \<open>The local variables that the error labels read.\<close>

record bind_locals =
  lv_ext :: bool
  lv_path :: string
  lv_path0 :: bool
  lv_tempname :: string
  lv_backname :: string

datatype label = err_rename | err_unlink_temp | err_unlink_back | err_return

text \<open>The calls made from each label to the end of the function: the labels fall
  through, so each continues with the next one.\<close>

definition from_err_unlink_back :: "bind_locals \<Rightarrow> event list" where
  "from_err_unlink_back lv =
     (if \<not> lv_ext lv \<and> lv_path0 lv then [E_unlink (lv_backname lv)] else [])"

definition from_err_unlink_temp :: "bind_locals \<Rightarrow> int \<Rightarrow> event list" where
  "from_err_unlink_temp lv fd =
     (if \<not> lv_ext lv \<and> lv_path0 lv then [E_unlink (lv_tempname lv)] else [])
     @ [E_close fd]
     @ from_err_unlink_back lv"

definition from_err_rename :: "bind_env \<Rightarrow> bind_locals \<Rightarrow> int \<Rightarrow> event list" where
  "from_err_rename env lv fd =
     [E_rename (lv_backname lv) (lv_path lv)]
     @ (if be_rename_back env = Err ENOENT then [E_unlink (lv_path lv)] else [])
     @ from_err_unlink_temp lv fd"

fun unwind :: "bind_env \<Rightarrow> bind_locals \<Rightarrow> int \<Rightarrow> label \<Rightarrow> event list" where
  "unwind env lv fd err_rename = from_err_rename env lv fd"
| "unwind env lv fd err_unlink_temp = from_err_unlink_temp lv fd"
| "unwind env lv fd err_unlink_back = from_err_unlink_back lv"
| "unwind env lv fd err_return = []"

text \<open>The message written at \<open>err_return\<close>.\<close>

definition bind_message :: "bind_locals \<Rightarrow> int \<Rightarrow> string \<Rightarrow> string" where
  "bind_message lv fd msg =
    (if \<not> lv_ext lv then msg @ '' ['' @ lv_path lv @ '']''
     else msg @ '' [fd '' @ show_int fd @ '']'')"

text \<open>A \<open>goto\<close> to a label with \<open>err\<close> and \<open>msg\<close> set: \<open>tr\<close> are the events so far, \<open>l\<close>
  is the listener and \<open>errmsg\<close> the buffer as they are at that point.  On every such path
  \<open>msg\<close> is not NULL.\<close>

definition bind_fail ::
  "bind_env \<Rightarrow> bind_locals \<Rightarrow> listener \<Rightarrow> buffer \<Rightarrow> int \<Rightarrow> int \<Rightarrow> event list \<Rightarrow>
   label \<Rightarrow> 32 word \<Rightarrow> string \<Rightarrow> bind_result" where
  "bind_fail env lv l errmsg errlen fd tr lbl err msg =
    \<lparr>b_err = err, b_listener = l,
     b_errmsg = (if errlen \<noteq> 0
                 then snprintf_buf errmsg (size_t_of_int errlen) (bind_message lv fd msg)
                 else errmsg),
     b_trace = tr @ unwind env lv fd lbl\<rparr>"

text \<open>From the point of no return to the end.\<close>

definition bind_switch ::
  "globals \<Rightarrow> bind_env \<Rightarrow> bind_locals \<Rightarrow> listener \<Rightarrow> buffer \<Rightarrow> int \<Rightarrow> int \<Rightarrow>
   event list \<Rightarrow> bind_result" where
  "bind_switch g env lv l errmsg errlen fd tr =
    (let renames = (\<not> lv_ext lv \<and> lv_path0 lv);
         tr1 = (if renames then tr @ [E_rename (lv_tempname lv) (lv_path lv)] else tr)
     in if renames \<and> be_rename env \<noteq> Ret () then
          bind_fail env lv l errmsg errlen fd tr1 err_rename
            (ERR_NONE OR (ERR_FATAL OR ERR_ALERT))
            ''cannot switch final and temporary UNIX sockets''
        else
          \<lparr>b_err = ERR_NONE,
           b_listener = l\<lparr>li_fd := fd, li_state := LI_LISTEN\<rparr>,
           b_errmsg = errmsg,
           b_trace =
             tr1 @ (if renames then [E_unlink (lv_backname lv)] else [])
             @ [E_fd_insert fd (thread_mask g (bind_thread (li_bind_conf l))
                                AND all_threads_mask g)]
             @ (if li_options l AND LI_O_INHERITED = 0 then [E_fd_exported fd] else [])\<rparr>)"

text \<open>
  The condition
  \<^verbatim>\<open>!ext && path[0] && (((uid != -1 || gid != -1) && chown(...) == -1) || (mode != 0 && chmod(...) == -1))\<close>
  evaluated from left to right: whether \<open>chown\<close> is called, whether it failed, whether
  \<open>chmod\<close> is called, whether it failed, and the calls made.
\<close>

definition does_chown :: "bind_locals \<Rightarrow> bind_conf \<Rightarrow> bool" where
  "does_chown lv bc =
    (\<not> lv_ext lv \<and> lv_path0 lv \<and> (ux_uid bc \<noteq> - 1 \<or> ux_gid bc \<noteq> - 1))"

definition chown_failed :: "bind_env \<Rightarrow> bind_locals \<Rightarrow> bind_conf \<Rightarrow> bool" where
  "chown_failed env lv bc = (does_chown lv bc \<and> be_chown env \<noteq> Ret ())"

definition does_chmod :: "bind_env \<Rightarrow> bind_locals \<Rightarrow> bind_conf \<Rightarrow> bool" where
  "does_chmod env lv bc =
    (\<not> lv_ext lv \<and> lv_path0 lv \<and> \<not> chown_failed env lv bc \<and> ux_mode bc \<noteq> 0)"

definition chmod_failed :: "bind_env \<Rightarrow> bind_locals \<Rightarrow> bind_conf \<Rightarrow> bool" where
  "chmod_failed env lv bc = (does_chmod env lv bc \<and> be_chmod env \<noteq> Ret ())"

definition owner_calls :: "bind_env \<Rightarrow> bind_locals \<Rightarrow> bind_conf \<Rightarrow> event list" where
  "owner_calls env lv bc =
    (if does_chown lv bc then [E_chown (lv_tempname lv) (ux_uid bc) (ux_gid bc)] else [])
    @ (if does_chmod env lv bc then [E_chmod (lv_tempname lv) (ux_mode bc)] else [])"

text \<open>The condition \<^verbatim>\<open>!(ext && ready)\<close>, where \<open>ready\<close> is what \<open>getsockopt\<close> stored, or
  0 when it failed.\<close>

definition listens :: "bind_env \<Rightarrow> bind_locals \<Rightarrow> bool" where
  "listens env lv =
    (\<not> (lv_ext lv \<and> (case be_getsockopt env of Ret v \<Rightarrow> v | Err e \<Rightarrow> 0) \<noteq> 0))"

text \<open>From \<open>getsockopt\<close> to \<open>listen()\<close>.\<close>

definition bind_listen ::
  "globals \<Rightarrow> bind_env \<Rightarrow> bind_locals \<Rightarrow> listener \<Rightarrow> buffer \<Rightarrow> int \<Rightarrow> int \<Rightarrow>
   event list \<Rightarrow> bind_result" where
  "bind_listen g env lv l errmsg errlen fd tr =
    (if listens env lv \<and> be_listen env \<noteq> Ret () then
       bind_fail env lv l errmsg errlen fd
         (tr @ [E_getsockopt_acceptconn fd, E_listen fd (be_backlog env)]) err_unlink_temp
         (ERR_NONE OR (ERR_FATAL OR ERR_ALERT)) ''cannot listen to UNIX socket''
     else
       bind_switch g env lv l errmsg errlen fd
         (tr @ [E_getsockopt_acceptconn fd]
             @ (if listens env lv then [E_listen fd (be_backlog env)] else [])))"

text \<open>The change of owner and mode.\<close>

definition bind_bound ::
  "globals \<Rightarrow> bind_env \<Rightarrow> bind_locals \<Rightarrow> listener \<Rightarrow> buffer \<Rightarrow> int \<Rightarrow> int \<Rightarrow>
   event list \<Rightarrow> bind_result" where
  "bind_bound g env lv l errmsg errlen fd tr =
    (if chown_failed env lv (li_bind_conf l) \<or> chmod_failed env lv (li_bind_conf l) then
       bind_fail env lv l errmsg errlen fd (tr @ owner_calls env lv (li_bind_conf l))
         err_unlink_temp (ERR_NONE OR (ERR_FATAL OR ERR_ALERT))
         ''cannot change UNIX socket ownership''
     else
       bind_listen g env lv l errmsg errlen fd (tr @ owner_calls env lv (li_bind_conf l)))"

text \<open>From the label \<open>fd_ready\<close> to \<open>bind()\<close>; \<open>addr\<close> is \<open>addr.sun_path\<close>.\<close>

definition bind_fd_ready ::
  "globals \<Rightarrow> bind_env \<Rightarrow> bind_locals \<Rightarrow> listener \<Rightarrow> buffer \<Rightarrow> int \<Rightarrow> int \<Rightarrow>
   char list \<Rightarrow> event list \<Rightarrow> bind_result" where
  "bind_fd_ready g env lv l errmsg errlen fd addr tr =
    (if fd \<ge> maxsock g then
       bind_fail env lv l errmsg errlen fd tr err_unlink_temp
         (ERR_NONE OR (ERR_FATAL OR ERR_ALERT))
         ''socket(): not enough free sockets, raise -n argument''
     else if be_fcntl env \<noteq> Ret () then
       bind_fail env lv l errmsg errlen fd (tr @ [E_fcntl_nonblock fd]) err_unlink_temp
         (ERR_NONE OR (ERR_FATAL OR ERR_ALERT)) ''cannot make UNIX socket non-blocking''
     else if \<not> lv_ext lv \<and> be_bind env \<noteq> Ret () then
       (if be_bind env = Err EADDRINUSE then
          bind_fail env lv l errmsg errlen fd (tr @ [E_fcntl_nonblock fd, E_bind fd addr])
            err_unlink_temp (ERR_NONE OR (ERR_RETRYABLE OR ERR_ALERT))
            ''cannot listen to socket''
        else
          bind_fail env lv l errmsg errlen fd (tr @ [E_fcntl_nonblock fd, E_bind fd addr])
            err_unlink_temp (ERR_NONE OR (ERR_FATAL OR ERR_ALERT))
            ''cannot bind UNIX socket'')
     else
       bind_bound g env lv l errmsg errlen fd
         (tr @ [E_fcntl_nonblock fd] @ (if \<not> lv_ext lv then [E_bind fd addr] else [])))"

text \<open>The call of \<open>socket()\<close>.\<close>

definition bind_socket ::
  "globals \<Rightarrow> bind_env \<Rightarrow> bind_locals \<Rightarrow> listener \<Rightarrow> buffer \<Rightarrow> int \<Rightarrow>
   char list \<Rightarrow> event list \<Rightarrow> bind_result" where
  "bind_socket g env lv l errmsg errlen addr tr =
    (case be_socket env of
       Err e \<Rightarrow>
         bind_fail env lv l errmsg errlen (- 1) (tr @ [E_socket (- 1)]) err_unlink_back
           (ERR_NONE OR (ERR_FATAL OR ERR_ALERT)) ''cannot create UNIX socket''
     | Ret n \<Rightarrow>
         bind_fd_ready g env lv l errmsg errlen (int n) addr (tr @ [E_socket (int n)]))"

text \<open>A call of \<open>unlink\<close> or \<open>link\<close> that failed with an errno other than \<open>ENOENT\<close>.\<close>

fun failed_not_ENOENT :: "unit sysret \<Rightarrow> bool" where
  "failed_not_ENOENT (Ret u) = False"
| "failed_not_ENOENT (Err e) = (e \<noteq> ENOENT)"

text \<open>The path-backed branch after the two names have been formed: the orphans, the
  backup, the length test that closes the branch.\<close>

definition bind_path_files ::
  "globals \<Rightarrow> bind_env \<Rightarrow> bind_locals \<Rightarrow> listener \<Rightarrow> buffer \<Rightarrow> int \<Rightarrow> event list \<Rightarrow>
   bind_result" where
  "bind_path_files g env lv l errmsg errlen tr =
    (if failed_not_ENOENT (be_unlink_temp env) then
       bind_fail env lv l errmsg errlen (- 1) (tr @ [E_unlink (lv_tempname lv)]) err_return
         (ERR_NONE OR (ERR_FATAL OR ERR_ALERT))
         ''error when trying to unlink previous UNIX socket''
     else if failed_not_ENOENT (be_unlink_back env) then
       bind_fail env lv l errmsg errlen (- 1)
         (tr @ [E_unlink (lv_tempname lv), E_unlink (lv_backname lv)]) err_return
         (ERR_NONE OR (ERR_FATAL OR ERR_ALERT))
         ''error when trying to unlink previous UNIX socket''
     else if failed_not_ENOENT (be_link env) then
       bind_fail env lv l errmsg errlen (- 1)
         (tr @ [E_unlink (lv_tempname lv), E_unlink (lv_backname lv),
                E_link (lv_path lv) (lv_backname lv)]) err_return
         (ERR_NONE OR (ERR_FATAL OR ERR_ALERT))
         ''error when trying to preserve previous UNIX socket''
     else if length (lv_tempname lv) \<ge> sun_path_size g then
       bind_fail env lv l errmsg errlen (- 1)
         (tr @ [E_unlink (lv_tempname lv), E_unlink (lv_backname lv),
                E_link (lv_path lv) (lv_backname lv)]) err_return
         (ERR_NONE OR (ERR_FATAL OR ERR_ALERT))
         ''name too long for UNIX socket (limit usually 97)''
     else
       bind_socket g env lv l errmsg errlen
         (pad (sun_path_size g - 1) (lv_tempname lv) @ [NUL])
         (tr @ [E_unlink (lv_tempname lv), E_unlink (lv_backname lv),
                E_link (lv_path lv) (lv_backname lv)]))"

text \<open>The two names of the path-backed branch: the text that \<open>snprintf\<close> formats, of
  which the array receives at most \<open>maxpathlen - 1\<close> characters.\<close>

definition temp_text :: "globals \<Rightarrow> string \<Rightarrow> string" where
  "temp_text g path = path @ ''.'' @ show_int (pid g) @ ''.tmp''"

definition back_text :: "globals \<Rightarrow> string \<Rightarrow> string" where
  "back_text g path = path @ ''.'' @ show_int (pid g) @ ''.bak''"

definition maxpathlen :: "globals \<Rightarrow> nat" where
  "maxpathlen g = min (MAXPATHLEN g) (sun_path_size g)"

definition path_locals :: "globals \<Rightarrow> string \<Rightarrow> bind_locals" where
  "path_locals g path =
    \<lparr>lv_ext = False, lv_path = path, lv_path0 = True,
     lv_tempname = take (maxpathlen g - 1) (temp_text g path),
     lv_backname = take (maxpathlen g - 1) (back_text g path)\<rparr>"

text \<open>The path-backed branch.  The value that \<open>snprintf\<close> returns is the length of the
  formatted text.\<close>

definition bind_path ::
  "globals \<Rightarrow> bind_env \<Rightarrow> listener \<Rightarrow> buffer \<Rightarrow> int \<Rightarrow> event list \<Rightarrow> bind_result" where
  "bind_path g env l errmsg errlen tr =
    (if int (length (temp_text g (c_str (li_sun_path l)))) < 0
        \<or> length (temp_text g (c_str (li_sun_path l))) \<ge> sun_path_size g then
       bind_fail env (path_locals g (c_str (li_sun_path l))) l errmsg errlen (- 1) tr
         err_return (ERR_NONE OR (ERR_FATAL OR ERR_ALERT))
         ''name too long for UNIX socket (limit usually 97)''
     else if int (length (back_text g (c_str (li_sun_path l)))) < 0
        \<or> length (back_text g (c_str (li_sun_path l))) \<ge> maxpathlen g then
       bind_fail env (path_locals g (c_str (li_sun_path l))) l errmsg errlen (- 1) tr
         err_return (ERR_NONE OR (ERR_FATAL OR ERR_ALERT))
         ''name too long for UNIX socket (limit usually 97)''
     else
       bind_path_files g env (path_locals g (c_str (li_sun_path l))) l errmsg errlen tr)"

text \<open>The function \<open>uxst_bind_listener(listener, errmsg, errlen)\<close>.\<close>

definition uxst_bind_listener ::
  "globals \<Rightarrow> bind_env \<Rightarrow> listener \<Rightarrow> buffer \<Rightarrow> int \<Rightarrow> bind_result" where
  "uxst_bind_listener g env l0 errmsg0 errlen =
    (let errmsg = (if errlen \<noteq> 0 then errmsg0(0 := NUL) else errmsg0)
     in if li_state l0 \<noteq> LI_ASSIGNED then
          \<lparr>b_err = ERR_NONE, b_listener = l0, b_errmsg = errmsg, b_trace = []\<rparr>
        else
          (let l = (if li_fd l0 = - 1 then l0\<lparr>li_fd := be_find_fd env\<rparr> else l0);
               tr = (if li_fd l0 = - 1 then [E_sock_find_compatible_fd] else [])
           in if li_fd l \<ge> 0 then
                bind_fd_ready g env
                  \<lparr>lv_ext = True, lv_path = c_str (li_sun_path l),
                   lv_path0 = (first_byte (li_sun_path l) \<noteq> NUL),
                   lv_tempname = [], lv_backname = []\<rparr>
                  l errmsg errlen (li_fd l) [] tr
              else if first_byte (li_sun_path l) \<noteq> NUL then
                bind_path g env l errmsg errlen tr
              else
                bind_socket g env
                  \<lparr>lv_ext = False, lv_path = c_str (li_sun_path l), lv_path0 = False,
                   lv_tempname = [], lv_backname = []\<rparr>
                  l errmsg errlen (pad (sun_path_size g) (li_sun_path l)) tr))"

text \<open>Modelled from the spec: \<open>unbind_listener\<close> and \<open>do_unbind_listener\<close> are defined in
  another file.  The spec calls what they do a complete unbind: it "releases the descriptor
  and associated event-subsystem registration" and "returns the listener to ASSIGNED", with
  the post-condition "state \<le> ASSIGNED, descriptor closed".  The model records the release
  of the descriptor that the listener holds as the event \<open>E_fd_delete\<close> and sets the state;
  it makes no test of its own on the state (the test on "exceeds ASSIGNED" is the one that
  \<open>uxst_unbind_listener\<close> makes before its call) and it leaves the descriptor slot as it is,
  since neither the spec nor this file says what is stored there.  The only call of
  \<open>do_unbind_listener\<close> in this file passes \<open>do_close = 1\<close>; \<open>unbind_listener\<close> is the same
  operation taking the listener's lock first.\<close>

definition do_unbind_listener :: "listener \<Rightarrow> listener \<times> event list" where
  "do_unbind_listener l = (l\<lparr>li_state := LI_ASSIGNED\<rparr>, [E_fd_delete (li_fd l)])"

definition unbind_listener :: "listener \<Rightarrow> listener \<times> event list" where
  "unbind_listener l = do_unbind_listener l"

text \<open>The function \<open>uxst_unbind_listener(listener)\<close>: the return value, the listener and
  the calls made.\<close>

definition uxst_unbind_listener :: "listener \<Rightarrow> 32 word \<times> listener \<times> event list" where
  "uxst_unbind_listener l =
    (if li_rank (li_state l) > li_rank LI_ASSIGNED
     then (ERR_NONE, unbind_listener l)
     else (ERR_NONE, l, []))"

text \<open>The function \<open>uxst_pause_listener(l)\<close>.\<close>

definition uxst_pause_listener :: "listener \<Rightarrow> int \<times> listener \<times> event list" where
  "uxst_pause_listener l =
    (if first_byte (li_sun_path l) \<noteq> NUL then (1, l, [])
     else (0, do_unbind_listener l))"

subsection \<open>The protocol and its listeners\<close>

record protocol =
  listeners :: "listener list"
  nb_listeners :: int

text \<open>The function \<open>uxst_add_listener(listener, port)\<close>; \<open>LIST_ADDQ\<close> appends.\<close>

definition uxst_add_listener :: "protocol \<Rightarrow> listener \<Rightarrow> protocol \<times> listener" where
  "uxst_add_listener proto l =
    (if li_state l \<noteq> LI_INIT then (proto, l)
     else (proto\<lparr>listeners := listeners proto @ [l\<lparr>li_state := LI_ASSIGNED\<rparr>],
                 nb_listeners := nb_listeners proto + 1\<rparr>,
           l\<lparr>li_state := LI_ASSIGNED\<rparr>))"

text \<open>
  The loop of \<open>uxst_bind_listeners\<close>: \<open>f\<close> is the call made for each listener, which
  returns its outcome and the listener and state as it leaves them; \<open>err\<close> is the
  accumulated outcome.  The loop is left by \<open>break\<close> when the accumulated outcome has the
  abort bit; the listeners after that one are not visited.
\<close>

fun bind_loop ::
  "(listener \<Rightarrow> 's \<Rightarrow> 32 word \<times> listener \<times> 's) \<Rightarrow> listener list \<Rightarrow> 32 word \<Rightarrow> 's \<Rightarrow>
   32 word \<times> listener list \<times> 's" where
  "bind_loop f [] err s = (err, [], s)"
| "bind_loop f (l # ls) err s =
    (case f l s of (e, l', s') \<Rightarrow>
       if (err OR e) AND ERR_ABORT \<noteq> 0 then (err OR e, l' # ls, s')
       else (case bind_loop f ls (err OR e) s' of
               (err', ls', s'') \<Rightarrow> (err', l' # ls', s'')))"

text \<open>What the calls of bind made by one call of \<open>uxst_bind_listeners\<close> share: the message
  buffer, the events so far, and the number of calls made (the \<open>n\<close>-th call is answered by
  the \<open>n\<close>-th environment).\<close>

record bind_world =
  w_errmsg :: buffer
  w_trace :: "event list"
  w_calls :: nat

definition bind_step ::
  "globals \<Rightarrow> (nat \<Rightarrow> bind_env) \<Rightarrow> int \<Rightarrow> listener \<Rightarrow> bind_world \<Rightarrow>
   32 word \<times> listener \<times> bind_world" where
  "bind_step g envs errlen l w =
    (let r = uxst_bind_listener g (envs (w_calls w)) l (w_errmsg w) errlen
     in (b_err r, b_listener r,
         \<lparr>w_errmsg = b_errmsg r, w_trace = w_trace w @ b_trace r,
          w_calls = Suc (w_calls w)\<rparr>))"

text \<open>The function \<open>uxst_bind_listeners(proto, errmsg, errlen)\<close>.\<close>

definition uxst_bind_listeners ::
  "globals \<Rightarrow> (nat \<Rightarrow> bind_env) \<Rightarrow> protocol \<Rightarrow> buffer \<Rightarrow> int \<Rightarrow>
   32 word \<times> protocol \<times> bind_world" where
  "uxst_bind_listeners g envs proto errmsg errlen =
    (case bind_loop (bind_step g envs errlen) (listeners proto) ERR_NONE
            \<lparr>w_errmsg = errmsg, w_trace = [], w_calls = 0\<rparr> of
       (err, ls, w) \<Rightarrow> (err, proto\<lparr>listeners := ls\<rparr>, w))"

text \<open>The loop of \<open>uxst_unbind_listeners\<close>.\<close>

fun unbind_loop :: "listener list \<Rightarrow> listener list \<times> event list" where
  "unbind_loop [] = ([], [])"
| "unbind_loop (l # ls) =
    (case uxst_unbind_listener l of (e, l', tr) \<Rightarrow>
       (case unbind_loop ls of (ls', tr') \<Rightarrow> (l' # ls', tr @ tr')))"

text \<open>The function \<open>uxst_unbind_listeners(proto)\<close>.\<close>

definition uxst_unbind_listeners :: "protocol \<Rightarrow> 32 word \<times> protocol \<times> event list" where
  "uxst_unbind_listeners proto =
    (case unbind_loop (listeners proto) of
       (ls, tr) \<Rightarrow> (ERR_NONE, proto\<lparr>listeners := ls\<rparr>, tr))"

text \<open>
  The aggregation as the specification words it: every listener is visited in list order
  and the outcomes are accumulated with bitwise OR.
\<close>

fun bind_every ::
  "(listener \<Rightarrow> 's \<Rightarrow> 32 word \<times> listener \<times> 's) \<Rightarrow> listener list \<Rightarrow> 32 word \<Rightarrow> 's \<Rightarrow>
   32 word \<times> listener list \<times> 's" where
  "bind_every f [] err s = (err, [], s)"
| "bind_every f (l # ls) err s =
    (case f l s of (e, l', s') \<Rightarrow>
       (case bind_every f ls (err OR e) s' of
          (err', ls', s'') \<Rightarrow> (err', l' # ls', s'')))"

subsection \<open>Predicates on events\<close>

fun is_bind_call :: "event \<Rightarrow> bool" where
  "is_bind_call (E_bind fd addr) = True"
| "is_bind_call e = False"

fun is_close :: "event \<Rightarrow> bool" where
  "is_close (E_close fd) = True"
| "is_close e = False"

fun is_socket :: "event \<Rightarrow> bool" where
  "is_socket (E_socket fd) = True"
| "is_socket e = False"

fun is_rename :: "event \<Rightarrow> bool" where
  "is_rename (E_rename a b) = True"
| "is_rename e = False"

fun is_link :: "event \<Rightarrow> bool" where
  "is_link (E_link a b) = True"
| "is_link e = False"

text \<open>
  The static reason text of a failure of bind, by the step that failed: the last call made
  before the unwinding.  A failure that follows no call, or only the search for an
  inherited descriptor, is the test of the descriptor against \<open>maxsock\<close> when the
  descriptor was supplied, and the test of the length of the names otherwise.  A failure
  right after \<open>socket()\<close> is that of \<open>socket()\<close> when it returned no descriptor and the
  test against \<open>maxsock\<close> otherwise; a failure of \<open>bind()\<close> has two texts, by its \<open>errno\<close>.
\<close>

definition no_call_reason :: "bool \<Rightarrow> string" where
  "no_call_reason ext =
    (if ext then ''socket(): not enough free sockets, raise -n argument''
     else ''name too long for UNIX socket (limit usually 97)'')"

fun step_reason :: "bind_env \<Rightarrow> bool \<Rightarrow> event \<Rightarrow> string" where
  "step_reason env ext E_sock_find_compatible_fd = no_call_reason ext"
| "step_reason env ext (E_unlink p) = ''error when trying to unlink previous UNIX socket''"
| "step_reason env ext (E_link p q) = ''error when trying to preserve previous UNIX socket''"
| "step_reason env ext (E_socket fd) =
    (if fd < 0 then ''cannot create UNIX socket''
     else ''socket(): not enough free sockets, raise -n argument'')"
| "step_reason env ext (E_fcntl_nonblock fd) = ''cannot make UNIX socket non-blocking''"
| "step_reason env ext (E_bind fd addr) =
    (if be_bind env = Err EADDRINUSE then ''cannot listen to socket''
     else ''cannot bind UNIX socket'')"
| "step_reason env ext (E_chown p u g) = ''cannot change UNIX socket ownership''"
| "step_reason env ext (E_chmod p m) = ''cannot change UNIX socket ownership''"
| "step_reason env ext (E_listen fd n) = ''cannot listen to UNIX socket''"
| "step_reason env ext (E_rename p q) = ''cannot switch final and temporary UNIX sockets''"
| "step_reason env ext e = []"

definition bind_reason :: "bind_env \<Rightarrow> bool \<Rightarrow> event list \<Rightarrow> string" where
  "bind_reason env ext fwd =
    (if fwd = [] then no_call_reason ext else step_reason env ext (last fwd))"

text \<open>The message of a failure as the specification words it: the reason, then the path of
  the address, or the descriptor when it was supplied from outside.\<close>

definition bind_text :: "bind_env \<Rightarrow> bool \<Rightarrow> int \<Rightarrow> string \<Rightarrow> event list \<Rightarrow> string" where
  "bind_text env ext fd path fwd =
    bind_reason env ext fwd
    @ (if ext then '' [fd '' @ show_int fd @ '']'' else '' ['' @ path @ '']'')"

fun is_readiness_hint :: "event \<Rightarrow> bool" where
  "is_readiness_hint (E_fd_want_send fd) = True"
| "is_readiness_hint (E_fd_cant_send fd) = True"
| "is_readiness_hint (E_fd_cant_recv fd) = True"
| "is_readiness_hint e = False"

subsection \<open>Predicates used in the proofs\<close>

text \<open>The state of a run that holds the descriptor \<open>fd\<close> after the events \<open>tr\<close>.\<close>

definition holds_fd :: "bind_locals \<Rightarrow> int list \<Rightarrow> event list \<Rightarrow> int \<Rightarrow> bool" where
  "holds_fd lv fds0 tr fd =
    (open_fds tr fds0 = [fd] \<and> filter is_close tr = []
     \<and> \<not> list_ex is_rename tr
     \<and> (lv_ext lv \<or> list_ex is_socket tr)
     \<and> (list_ex is_link tr \<longrightarrow> \<not> lv_ext lv \<and> lv_path0 lv))"

text \<open>A failed run: the events before the unwinding, the label, the reason.\<close>

definition fail_shape ::
  "bind_env \<Rightarrow> bind_locals \<Rightarrow> int list \<Rightarrow> event list \<Rightarrow> int \<Rightarrow> label \<Rightarrow> string \<Rightarrow>
   bool" where
  "fail_shape env lv fds0 fwd fd lbl msg =
    (msg = bind_reason env (lv_ext lv) fwd \<and> filter is_close fwd = []
     \<and> (list_ex is_link fwd \<longrightarrow> \<not> lv_ext lv \<and> lv_path0 lv)
     \<and> (case lbl of
          err_rename \<Rightarrow>
            open_fds fwd fds0 = [fd] \<and> list_ex is_rename fwd
            \<and> \<not> lv_ext lv \<and> lv_path0 lv \<and> list_ex is_socket fwd
        | err_unlink_temp \<Rightarrow>
            open_fds fwd fds0 = [fd] \<and> \<not> list_ex is_rename fwd
            \<and> (lv_ext lv \<or> list_ex is_socket fwd)
        | err_unlink_back \<Rightarrow>
            open_fds fwd fds0 = [] \<and> \<not> list_ex is_rename fwd
            \<and> list_ex is_socket fwd \<and> \<not> list_ex is_bind_call fwd \<and> \<not> lv_ext lv
        | err_return \<Rightarrow>
            open_fds fwd fds0 = [] \<and> \<not> list_ex is_rename fwd
            \<and> \<not> list_ex is_socket fwd \<and> \<not> list_ex is_bind_call fwd \<and> \<not> lv_ext lv
            \<and> (list_ex is_link fwd \<longrightarrow> failed_not_ENOENT (be_link env))))"

definition failed_as ::
  "bind_env \<Rightarrow> bind_locals \<Rightarrow> listener \<Rightarrow> buffer \<Rightarrow> int \<Rightarrow> int list \<Rightarrow> int \<Rightarrow> bind_result \<Rightarrow> bool" where
  "failed_as env lv l errmsg errlen fds0 fd r =
    (\<exists>fwd lbl err msg. r = bind_fail env lv l errmsg errlen fd fwd lbl err msg
        \<and> fail_shape env lv fds0 fwd fd lbl msg)"

text \<open>The classification of C5, said of the result \<open>r\<close> of a stage that runs with the
  locals \<open>lv\<close>.\<close>

definition retry_rule :: "bind_env \<Rightarrow> bind_locals \<Rightarrow> bind_result \<Rightarrow> bool" where
  "retry_rule env lv r =
    ((list_ex is_bind_call (b_trace r) \<longrightarrow>
        \<not> lv_ext lv
        \<and> (be_bind env = Err EADDRINUSE \<longrightarrow> b_err r = ERR_NONE OR (ERR_RETRYABLE OR ERR_ALERT))
        \<and> (be_bind env \<noteq> Err EADDRINUSE \<and> be_bind env \<noteq> Ret () \<longrightarrow>
             b_err r = ERR_NONE OR (ERR_FATAL OR ERR_ALERT)))
     \<and> (b_err r AND ERR_RETRYABLE \<noteq> 0 \<longrightarrow>
          list_ex is_bind_call (b_trace r) \<and> be_bind env = Err EADDRINUSE))"

text \<open>The classification of C7, said of a result \<open>r\<close> of connect.\<close>

definition connect_rule :: "connect_env \<Rightarrow> int \<Rightarrow> connect_result \<Rightarrow> bool" where
  "connect_rule env fd r =
    ((ce_connect env = Ret () \<or> ce_connect env = Err EISCONN \<longrightarrow>
        co_flags (conn r) AND CO_FL_WAIT_L4_CONN = 0
      \<and> filter is_readiness_hint (trace r) = []
      \<and> (0 \<le> ce_conn_xprt_init env \<longrightarrow> outcome r = SF_ERR_NONE))
   \<and> (ce_connect env = Err EINPROGRESS \<or> ce_connect env = Err EALREADY \<longrightarrow>
        co_flags (conn r) AND CO_FL_WAIT_L4_CONN = CO_FL_WAIT_L4_CONN
      \<and> filter is_readiness_hint (trace r)
          = [E_fd_want_send fd, E_fd_cant_send fd, E_fd_cant_recv fd]
      \<and> (0 \<le> ce_conn_xprt_init env \<longrightarrow> outcome r = SF_ERR_NONE))
   \<and> (ce_connect env = Err ETIMEDOUT \<longrightarrow> outcome r = SF_ERR_SRVTO)
   \<and> (ce_connect env = Err EAGAIN \<or> ce_connect env = Err EADDRNOTAVAIL \<longrightarrow>
        outcome r = SF_ERR_RESOURCE \<and> err_code (conn r) = CO_ER_FREE_PORTS)
   \<and> (ce_connect env = Err EADDRINUSE \<longrightarrow>
        outcome r = SF_ERR_RESOURCE \<and> err_code (conn r) = CO_ER_ADDR_INUSE)
   \<and> (\<forall>e. ce_connect env = Err e
          \<and> e \<notin> {EINPROGRESS, EALREADY, EISCONN, EAGAIN, EADDRINUSE, EADDRNOTAVAIL, ETIMEDOUT}
        \<longrightarrow> outcome r = SF_ERR_SRVCL))"

section \<open>Example inputs\<close>

definition ex_globals :: globals where
  "ex_globals =
    \<lparr>maxsock = 100, master = 0, pid = 4242, server_sndbuf = 0, server_rcvbuf = 0,
     all_threads_mask = 1, thread_mask = (\<lambda>m. if m = 0 then 1 else m),
     MAXPATHLEN = 4096, sun_path_size = 108\<rparr>"

definition ex_proxy :: proxy where
  "ex_proxy = \<lparr>px_id = ''be1''\<rparr>"

definition ex_conn :: connection where
  "ex_conn =
    \<lparr>target = OBJ_TYPE_PROXY ex_proxy, co_flags = 0, err_code = CO_ER_NONE,
     handle_fd = - 1, send_proxy_ofs = 0\<rparr>"

definition ex_connect_env :: connect_env where
  "ex_connect_env =
    \<lparr>ce_socket = Ret 7, ce_fcntl_nonblock = Ret (), ce_fcntl_cloexec = Ret (),
     ce_connect = Ret (), ce_conn_xprt_init = 0\<rparr>"

definition ex_bind_conf :: bind_conf where
  "ex_bind_conf = \<lparr>ux_uid = - 1, ux_gid = - 1, ux_mode = 0, bind_thread = 0\<rparr>"

definition ex_listener :: listener where
  "ex_listener =
    \<lparr>li_state = LI_ASSIGNED, li_fd = - 1, li_sun_path = ''/run/s'', li_options = 0,
     li_bind_conf = ex_bind_conf\<rparr>"

definition ex_bind_env :: bind_env where
  "ex_bind_env =
    \<lparr>be_find_fd = - 1, be_unlink_temp = Err ENOENT, be_unlink_back = Err ENOENT,
     be_link = Ret (), be_socket = Ret 5, be_fcntl = Ret (), be_bind = Ret (),
     be_chown = Ret (), be_chmod = Ret (), be_getsockopt = Ret 0, be_backlog = 128,
     be_listen = Ret (), be_rename = Ret (), be_rename_back = Ret ()\<rparr>"

definition ex_buffer :: buffer where
  "ex_buffer = (\<lambda>i. CHR ''x'')"

section \<open>Properties of connect\<close>

subsection \<open>Flag arithmetic\<close>

lemma flag_set: "(x OR f) AND f = (f::32 word)"
  by (simp add: word_ao_absorbs)

lemma wait_after_addr:
  "(x OR CO_FL_ADDR_TO_SET) AND CO_FL_WAIT_L4_CONN = x AND CO_FL_WAIT_L4_CONN"
  by (simp add: bit.conj_disj_distrib2 CO_FL_ADDR_TO_SET_def CO_FL_WAIT_L4_CONN_def)

lemma wait_after_send_proxy:
  "(x OR CO_FL_SEND_PROXY) AND CO_FL_WAIT_L4_CONN = x AND CO_FL_WAIT_L4_CONN"
  by (simp add: bit.conj_disj_distrib2 CO_FL_SEND_PROXY_def CO_FL_WAIT_L4_CONN_def)

lemma wait_after_error:
  "(x OR CO_FL_ERROR) AND CO_FL_WAIT_L4_CONN = x AND CO_FL_WAIT_L4_CONN"
  by (simp add: bit.conj_disj_distrib2 CO_FL_ERROR_def CO_FL_WAIT_L4_CONN_def)

lemma wait_cleared: "(x AND NOT CO_FL_WAIT_L4_CONN) AND CO_FL_WAIT_L4_CONN = 0"
  by (simp add: word_bw_assocs)

lemma wait_nonzero: "CO_FL_WAIT_L4_CONN \<noteq> 0"
  by (simp add: CO_FL_WAIT_L4_CONN_def)

subsection \<open>Descriptors left open by a trace\<close>

lemma open_fds_append: "open_fds (xs @ ys) fds = open_fds ys (open_fds xs fds)"
  by (induction xs fds rule: open_fds.induct) simp_all

lemma established_fds:
  assumes "handle_fd c = fd" and "open_fds tr [] = [fd]"
  shows "(outcome (connect_established env fd fl c tr) \<noteq> SF_ERR_NONE \<longrightarrow>
            open_fds (trace (connect_established env fd fl c tr)) [] = []
          \<and> co_flags (conn (connect_established env fd fl c tr)) AND CO_FL_ERROR = CO_FL_ERROR
          \<and> E_conn_xprt_init \<in> set (trace (connect_established env fd fl c tr)))
       \<and> (outcome (connect_established env fd fl c tr) = SF_ERR_NONE \<longrightarrow>
            open_fds (trace (connect_established env fd fl c tr)) [] = [fd]
          \<and> handle_fd (conn (connect_established env fd fl c tr)) = fd)"
  using assms
  by (simp add: connect_established_def Let_def open_fds_append flag_set)

lemma issue_fds:
  assumes "handle_fd c = fd" and "open_fds tr [] = [fd]" and "E_conn_xprt_init \<notin> set tr"
  shows "(outcome (connect_issue env be fd fl c tr) \<noteq> SF_ERR_NONE \<longrightarrow>
            open_fds (trace (connect_issue env be fd fl c tr)) [] = []
          \<and> co_flags (conn (connect_issue env be fd fl c tr)) AND CO_FL_ERROR = CO_FL_ERROR
          \<and> (E_conn_xprt_init \<notin> set (trace (connect_issue env be fd fl c tr)) \<longrightarrow>
               err_code (conn (connect_issue env be fd fl c tr)) \<noteq> CO_ER_NONE))
       \<and> (outcome (connect_issue env be fd fl c tr) = SF_ERR_NONE \<longrightarrow>
            open_fds (trace (connect_issue env be fd fl c tr)) [] = [fd]
          \<and> handle_fd (conn (connect_issue env be fd fl c tr)) = fd)"
proof (cases "ce_connect env")
  case (Ret u)
  then show ?thesis
    using assms
      established_fds [of "c\<lparr>co_flags := co_flags c AND NOT CO_FL_WAIT_L4_CONN\<rparr>" fd
                          "tr @ [E_connect fd]" env fl]
    by (simp add: connect_issue_def open_fds_append)
next
  case (Err e)
  then show ?thesis
    using assms
      established_fds [of "c\<lparr>co_flags := co_flags c AND NOT CO_FL_WAIT_L4_CONN\<rparr>" fd
                          "tr @ [E_connect fd]" env fl]
      established_fds [of "c\<lparr>co_flags := co_flags c OR CO_FL_WAIT_L4_CONN\<rparr>" fd
                          "tr @ [E_connect fd]" env fl]
    by (simp add: connect_issue_def open_fds_append flag_set Let_def split: if_splits)
qed

subsection \<open>The descriptor-limit rejection\<close>

text \<open>
  Claim C1.  Whenever the target is a proxy or a server, \<open>socket()\<close> succeeds and the new
  descriptor is not below \<open>global.maxsock\<close>, connect returns \<open>SF_ERR_PRXCOND\<close>, sets the
  error code \<open>CO_ER_CONF_FDLIM\<close> and the error flag, and closes the descriptor.  The only
  calls it makes are \<open>socket\<close>, \<open>ha_alert\<close> (the process-wide alert sink) and
  \<open>close\<close>: \<open>send_log\<close> is not called, so no log is emitted.
\<close>

theorem C1_maxsock_rejected:
  assumes "target_backend (target c) = Some be" and "ce_socket env = Ret n"
    and "maxsock g \<le> int n"
  shows "outcome (uxst_connect_server g env c fl) = SF_ERR_PRXCOND
       \<and> err_code (conn (uxst_connect_server g env c fl)) = CO_ER_CONF_FDLIM
       \<and> co_flags (conn (uxst_connect_server g env c fl)) AND CO_FL_ERROR = CO_FL_ERROR
       \<and> trace (uxst_connect_server g env c fl) =
           [E_socket (int n),
            E_ha_alert (''socket(): not enough free sockets. Raise -n argument. Giving up.'' @ [LF]),
            E_close (int n)]
       \<and> filter is_send_log (trace (uxst_connect_server g env c fl)) = []
       \<and> open_fds (trace (uxst_connect_server g env c fl)) [] = []"
  using assms by (simp add: uxst_connect_server_def flag_set Let_def)

theorem C1_maxsock_rejected_witness:
  "target_backend (target ex_conn) = Some ex_proxy
   \<and> ce_socket (ex_connect_env\<lparr>ce_socket := Ret 100\<rparr>) = Ret 100
   \<and> maxsock ex_globals \<le> int 100
   \<and> outcome (uxst_connect_server ex_globals (ex_connect_env\<lparr>ce_socket := Ret 100\<rparr>) ex_conn 0)
       = SF_ERR_PRXCOND
   \<and> err_code (conn (uxst_connect_server ex_globals (ex_connect_env\<lparr>ce_socket := Ret 100\<rparr>)
                       ex_conn 0)) = CO_ER_CONF_FDLIM
   \<and> filter is_send_log
       (trace (uxst_connect_server ex_globals (ex_connect_env\<lparr>ce_socket := Ret 100\<rparr>) ex_conn 0))
       = []"
  using C1_maxsock_rejected [of ex_conn ex_proxy "ex_connect_env\<lparr>ce_socket := Ret 100\<rparr>" 100
                               ex_globals 0]
  by (simp add: ex_conn_def ex_connect_env_def ex_globals_def)

subsection \<open>Descriptor ownership, error flag and error code\<close>

text \<open>
  Claim C2, as stated, asks that every failure path sets the error flag and the error
  code together.  On the default case of the \<open>switch\<close> (a target that is neither a proxy
  nor a server) connect sets the flag and returns \<open>SF_ERR_INTERNAL\<close> without assigning
  \<open>conn->err_code\<close>: a connection that enters with \<open>CO_ER_NONE\<close> leaves with the
  error flag set and \<open>CO_ER_NONE\<close>.
\<close>

theorem C2_counterexample:
  "outcome (uxst_connect_server ex_globals ex_connect_env
              (ex_conn\<lparr>target := OBJ_TYPE_other 0\<rparr>) 0) = SF_ERR_INTERNAL
   \<and> co_flags (conn (uxst_connect_server ex_globals ex_connect_env
              (ex_conn\<lparr>target := OBJ_TYPE_other 0\<rparr>) 0)) AND CO_FL_ERROR = CO_FL_ERROR
   \<and> err_code (conn (uxst_connect_server ex_globals ex_connect_env
              (ex_conn\<lparr>target := OBJ_TYPE_other 0\<rparr>) 0)) = CO_ER_NONE"
  by (simp add: uxst_connect_server_def ex_conn_def flag_set)

text \<open>
  Claim C2, amended.  For every invocation of connect:
  \<^item> a result other than \<open>SF_ERR_NONE\<close> leaves no descriptor open (none was created, or
    the one created has been closed) and has the error flag set;
  \<^item> \<open>SF_ERR_NONE\<close> is returned only with the created descriptor still open, stored in
    the connection, non-negative and below \<open>global.maxsock\<close>;
  \<^item> on every failure path between the resolution of the target and the transport
    initialisation (\<open>conn_xprt_init\<close>) the error code is assigned together with the flag;
  \<^item> for a target that is neither a proxy nor a server connect returns
    \<open>SF_ERR_INTERNAL\<close>, makes no call, and leaves the error code as it was.
\<close>

theorem C2_descriptor_and_error:
  "(outcome (uxst_connect_server g env c fl) \<noteq> SF_ERR_NONE \<longrightarrow>
       open_fds (trace (uxst_connect_server g env c fl)) [] = []
     \<and> co_flags (conn (uxst_connect_server g env c fl)) AND CO_FL_ERROR = CO_FL_ERROR)
 \<and> (outcome (uxst_connect_server g env c fl) = SF_ERR_NONE \<longrightarrow>
       open_fds (trace (uxst_connect_server g env c fl)) []
         = [handle_fd (conn (uxst_connect_server g env c fl))]
     \<and> 0 \<le> handle_fd (conn (uxst_connect_server g env c fl))
     \<and> handle_fd (conn (uxst_connect_server g env c fl)) < maxsock g)
 \<and> (outcome (uxst_connect_server g env c fl) \<noteq> SF_ERR_NONE
      \<and> target_backend (target c) \<noteq> None
      \<and> E_conn_xprt_init \<notin> set (trace (uxst_connect_server g env c fl)) \<longrightarrow>
       err_code (conn (uxst_connect_server g env c fl)) \<noteq> CO_ER_NONE)
 \<and> (target_backend (target c) = None \<longrightarrow>
       outcome (uxst_connect_server g env c fl) = SF_ERR_INTERNAL
     \<and> err_code (conn (uxst_connect_server g env c fl)) = err_code c
     \<and> trace (uxst_connect_server g env c fl) = [])"
proof (cases "target_backend (target c)")
  case None
  then show ?thesis by (simp add: uxst_connect_server_def flag_set)
next
  case (Some be)
  show ?thesis
  proof (cases "ce_socket env")
    case (Err e)
    then show ?thesis using Some
      by (simp add: uxst_connect_server_def socket_failed_def flag_set)
  next
    case (Ret n)
    let ?c = "c\<lparr>handle_fd := int n\<rparr>"
    let ?fl = "if send_proxy_ofs c \<noteq> 0 then fl OR CONNECT_HAS_DATA else fl"
    let ?tr = "[E_socket (int n), E_fcntl_nonblock (int n)]
                @ (if master g = 1 then [E_fcntl_cloexec (int n)] else [])
                @ (if server_sndbuf g \<noteq> 0
                   then [E_setsockopt_sndbuf (int n) (server_sndbuf g)] else [])
                @ (if server_rcvbuf g \<noteq> 0
                   then [E_setsockopt_rcvbuf (int n) (server_rcvbuf g)] else [])"
    have "handle_fd ?c = int n" "open_fds ?tr [] = [int n]" "E_conn_xprt_init \<notin> set ?tr"
      by simp_all
    from issue_fds [OF this, of env be ?fl] show ?thesis using Some Ret
      by (simp add: uxst_connect_server_def flag_set Let_def)
  qed
qed

theorem C2_descriptor_and_error_witness:
  "outcome (uxst_connect_server ex_globals ex_connect_env ex_conn 0) = SF_ERR_NONE
   \<and> open_fds (trace (uxst_connect_server ex_globals ex_connect_env ex_conn 0)) [] = [7]
   \<and> handle_fd (conn (uxst_connect_server ex_globals ex_connect_env ex_conn 0)) = 7
   \<and> outcome (uxst_connect_server ex_globals (ex_connect_env\<lparr>ce_connect := Err ETIMEDOUT\<rparr>)
                ex_conn 0) \<noteq> SF_ERR_NONE
   \<and> target_backend (target ex_conn) \<noteq> None
   \<and> E_conn_xprt_init \<notin> set (trace (uxst_connect_server ex_globals
                (ex_connect_env\<lparr>ce_connect := Err ETIMEDOUT\<rparr>) ex_conn 0))
   \<and> open_fds (trace (uxst_connect_server ex_globals
                (ex_connect_env\<lparr>ce_connect := Err ETIMEDOUT\<rparr>) ex_conn 0)) [] = []
   \<and> err_code (conn (uxst_connect_server ex_globals
                (ex_connect_env\<lparr>ce_connect := Err ETIMEDOUT\<rparr>) ex_conn 0)) \<noteq> CO_ER_NONE
   \<and> target_backend (target (ex_conn\<lparr>target := OBJ_TYPE_other 0\<rparr>)) = None
   \<and> trace (uxst_connect_server ex_globals ex_connect_env
                (ex_conn\<lparr>target := OBJ_TYPE_other 0\<rparr>) 0) = []"
  using C2_descriptor_and_error [of ex_globals ex_connect_env ex_conn 0]
    C2_descriptor_and_error [of ex_globals "ex_connect_env\<lparr>ce_connect := Err ETIMEDOUT\<rparr>"
                               ex_conn 0]
    C2_descriptor_and_error [of ex_globals ex_connect_env
                               "ex_conn\<lparr>target := OBJ_TYPE_other 0\<rparr>" 0]
  by (simp add: uxst_connect_server_def connect_issue_def connect_established_def Let_def
      ex_globals_def ex_connect_env_def ex_conn_def CO_FL_ADDR_TO_SET_def
      CO_FL_WAIT_L4_CONN_def)

subsection \<open>Failure of descriptor creation\<close>

text \<open>
  Claim C3 says that every errno with which \<open>socket()\<close> fails gives the outcome
  \<open>SF_ERR_RESOURCE\<close>, the error flag, the error code of its class, and an emergency log
  that names the backend and \<open>global.maxsock\<close>.  The comment above the function says the
  same of the log ("in the case of SF_ERR_RESOURCE, an emergency log will be emitted").
  The code evaluated at \<open>errno = EAFNOSUPPORT\<close>: the outcome, the flag and the code
  \<open>CO_ER_NOPROTO\<close> are as claimed, but the only call besides \<open>socket\<close> is the
  \<open>qfprintf\<close> to stderr; \<open>send_log\<close> is not called.
\<close>

theorem C3_socket_failure_without_log:
  "outcome (uxst_connect_server ex_globals (ex_connect_env\<lparr>ce_socket := Err EAFNOSUPPORT\<rparr>)
              ex_conn 0) = SF_ERR_RESOURCE
   \<and> err_code (conn (uxst_connect_server ex_globals
              (ex_connect_env\<lparr>ce_socket := Err EAFNOSUPPORT\<rparr>) ex_conn 0)) = CO_ER_NOPROTO
   \<and> co_flags (conn (uxst_connect_server ex_globals
              (ex_connect_env\<lparr>ce_socket := Err EAFNOSUPPORT\<rparr>) ex_conn 0)) AND CO_FL_ERROR
       = CO_FL_ERROR
   \<and> trace (uxst_connect_server ex_globals
              (ex_connect_env\<lparr>ce_socket := Err EAFNOSUPPORT\<rparr>) ex_conn 0)
       = [E_socket (- 1), E_qfprintf (''Cannot get a server socket.'' @ [LF])]
   \<and> filter is_send_log (trace (uxst_connect_server ex_globals
              (ex_connect_env\<lparr>ce_socket := Err EAFNOSUPPORT\<rparr>) ex_conn 0)) = []"
  by (simp add: uxst_connect_server_def socket_failed_def ex_connect_env_def ex_conn_def
      ex_proxy_def flag_set)

subsection \<open>Classification of the result of \<open>connect()\<close>\<close>

lemma established_wait:
  assumes "filter is_readiness_hint tr = []"
  shows "co_flags (conn (connect_established env fd fl c tr)) AND CO_FL_WAIT_L4_CONN
           = co_flags c AND CO_FL_WAIT_L4_CONN
       \<and> filter is_readiness_hint (trace (connect_established env fd fl c tr))
           = (if co_flags c AND CO_FL_WAIT_L4_CONN \<noteq> 0
              then [E_fd_want_send fd, E_fd_cant_send fd, E_fd_cant_recv fd] else [])
       \<and> (0 \<le> ce_conn_xprt_init env \<longrightarrow>
            outcome (connect_established env fd fl c tr) = SF_ERR_NONE)"
  using assms
  by (simp add: connect_established_def Let_def wait_after_addr wait_after_send_proxy
      wait_after_error)

lemma issue_rule:
  assumes "filter is_readiness_hint tr = []"
  shows "connect_rule env fd (connect_issue env be fd fl c tr)"
proof (cases "ce_connect env")
  case (Ret u)
  have h: "filter is_readiness_hint (tr @ [E_connect fd]) = []" using assms by simp
  show ?thesis
    using Ret established_wait [OF h, of env fd fl
                 "c\<lparr>co_flags := co_flags c AND NOT CO_FL_WAIT_L4_CONN\<rparr>"]
    by (simp add: connect_rule_def connect_issue_def wait_cleared)
next
  case (Err e)
  have h: "filter is_readiness_hint (tr @ [E_connect fd]) = []" using assms by simp
  consider (prog) "e = EINPROGRESS \<or> e = EALREADY"
    | (isconn) "e = EISCONN"
    | (res) "e = EAGAIN \<or> e = EADDRINUSE \<or> e = EADDRNOTAVAIL"
    | (to) "e = ETIMEDOUT"
    | (other) "e \<notin> {EINPROGRESS, EALREADY, EISCONN, EAGAIN, EADDRINUSE, EADDRNOTAVAIL, ETIMEDOUT}"
    by blast
  then show ?thesis
  proof cases
    case prog
    then show ?thesis
      using Err established_wait [OF h, of env fd fl
                 "c\<lparr>co_flags := co_flags c OR CO_FL_WAIT_L4_CONN\<rparr>"]
      by (auto simp add: connect_rule_def connect_issue_def flag_set wait_nonzero)
  next
    case isconn
    then show ?thesis
      using Err established_wait [OF h, of env fd fl
                 "c\<lparr>co_flags := co_flags c AND NOT CO_FL_WAIT_L4_CONN\<rparr>"]
      by (simp add: connect_rule_def connect_issue_def wait_cleared)
  next
    case res
    then show ?thesis using Err
      by (auto simp add: connect_rule_def connect_issue_def Let_def)
  next
    case to
    then show ?thesis using Err
      by (simp add: connect_rule_def connect_issue_def)
  next
    case other
    then show ?thesis using Err
      by (simp add: connect_rule_def connect_issue_def)
  qed
qed

lemma connect_reached:
  assumes "E_connect fd \<in> set (trace (uxst_connect_server g env c fl))"
  shows "\<exists>be fl' c' tr. uxst_connect_server g env c fl = connect_issue env be fd fl' c' tr
          \<and> filter is_readiness_hint tr = []"
proof (cases "target_backend (target c)")
  case None
  then show ?thesis using assms by (simp add: uxst_connect_server_def)
next
  case (Some be)
  show ?thesis
  proof (cases "ce_socket env")
    case (Err e)
    then show ?thesis using assms Some
      by (simp add: uxst_connect_server_def socket_failed_def split: if_splits)
  next
    case (Ret n)
    let ?tr = "[E_socket (int n), E_fcntl_nonblock (int n)]
                @ (if master g = 1 then [E_fcntl_cloexec (int n)] else [])
                @ (if server_sndbuf g \<noteq> 0
                   then [E_setsockopt_sndbuf (int n) (server_sndbuf g)] else [])
                @ (if server_rcvbuf g \<noteq> 0
                   then [E_setsockopt_rcvbuf (int n) (server_rcvbuf g)] else [])"
    let ?fl = "if send_proxy_ofs c \<noteq> 0 then fl OR CONNECT_HAS_DATA else fl"
    let ?ok = "\<not> maxsock g \<le> int n \<and> ce_fcntl_nonblock env = Ret ()
               \<and> \<not> (master g = 1 \<and> ce_fcntl_cloexec env \<noteq> Ret ())"
    show ?thesis
    proof (cases ?ok)
      case False
      then have "E_connect fd \<notin> set (trace (uxst_connect_server g env c fl))"
        using Some Ret by (auto simp add: uxst_connect_server_def Let_def)
      then show ?thesis using assms by simp
    next
      case True
      then have eq: "uxst_connect_server g env c fl
                 = connect_issue env be (int n) ?fl (c\<lparr>handle_fd := int n\<rparr>) ?tr"
        using Some Ret by (auto simp add: uxst_connect_server_def Let_def)
      have nh: "filter is_readiness_hint ?tr = []" by simp
      have "E_connect fd \<in> set (trace (connect_issue env be (int n) ?fl
                 (c\<lparr>handle_fd := int n\<rparr>) ?tr))"
        using assms eq by simp
      then have "fd = int n"
        by (auto simp add: connect_issue_def connect_established_def Let_def
            split: sysret.splits if_splits)
      then show ?thesis using eq nh by blast
    qed
  qed
qed

text \<open>
  Claim C7.  Whenever connect reaches the call \<open>connect(fd, ...)\<close>:
  \<^item> if the call succeeds or fails with \<open>EISCONN\<close>, the flag \<open>CO_FL_WAIT_L4_CONN\<close>
    is clear on return, none of \<open>fd_want_send\<close>, \<open>fd_cant_send\<close>, \<open>fd_cant_recv\<close>
    is called, and the outcome is \<open>SF_ERR_NONE\<close> unless the transport initialisation fails;
  \<^item> if it fails with \<open>EINPROGRESS\<close> or \<open>EALREADY\<close>, the flag is set and the three
    hints are given, in that order, for \<open>fd\<close>;
  \<^item> \<open>ETIMEDOUT\<close> gives \<open>SF_ERR_SRVTO\<close>;
  \<^item> \<open>EAGAIN\<close> and \<open>EADDRNOTAVAIL\<close> give \<open>SF_ERR_RESOURCE\<close> with the code
    \<open>CO_ER_FREE_PORTS\<close>, \<open>EADDRINUSE\<close> gives \<open>SF_ERR_RESOURCE\<close> with
    \<open>CO_ER_ADDR_INUSE\<close>;
  \<^item> every other errno gives \<open>SF_ERR_SRVCL\<close>.
\<close>

theorem C7_connect_classification:
  assumes "E_connect fd \<in> set (trace (uxst_connect_server g env c fl))"
  shows
   "(ce_connect env = Ret () \<or> ce_connect env = Err EISCONN \<longrightarrow>
        co_flags (conn (uxst_connect_server g env c fl)) AND CO_FL_WAIT_L4_CONN = 0
      \<and> filter is_readiness_hint (trace (uxst_connect_server g env c fl)) = []
      \<and> (0 \<le> ce_conn_xprt_init env \<longrightarrow>
           outcome (uxst_connect_server g env c fl) = SF_ERR_NONE))
   \<and> (ce_connect env = Err EINPROGRESS \<or> ce_connect env = Err EALREADY \<longrightarrow>
        co_flags (conn (uxst_connect_server g env c fl)) AND CO_FL_WAIT_L4_CONN
          = CO_FL_WAIT_L4_CONN
      \<and> filter is_readiness_hint (trace (uxst_connect_server g env c fl))
          = [E_fd_want_send fd, E_fd_cant_send fd, E_fd_cant_recv fd]
      \<and> (0 \<le> ce_conn_xprt_init env \<longrightarrow>
           outcome (uxst_connect_server g env c fl) = SF_ERR_NONE))
   \<and> (ce_connect env = Err ETIMEDOUT \<longrightarrow>
        outcome (uxst_connect_server g env c fl) = SF_ERR_SRVTO)
   \<and> (ce_connect env = Err EAGAIN \<or> ce_connect env = Err EADDRNOTAVAIL \<longrightarrow>
        outcome (uxst_connect_server g env c fl) = SF_ERR_RESOURCE
      \<and> err_code (conn (uxst_connect_server g env c fl)) = CO_ER_FREE_PORTS)
   \<and> (ce_connect env = Err EADDRINUSE \<longrightarrow>
        outcome (uxst_connect_server g env c fl) = SF_ERR_RESOURCE
      \<and> err_code (conn (uxst_connect_server g env c fl)) = CO_ER_ADDR_INUSE)
   \<and> (\<forall>e. ce_connect env = Err e
          \<and> e \<notin> {EINPROGRESS, EALREADY, EISCONN, EAGAIN, EADDRINUSE, EADDRNOTAVAIL, ETIMEDOUT}
        \<longrightarrow> outcome (uxst_connect_server g env c fl) = SF_ERR_SRVCL)"
proof -
  from connect_reached [OF assms] obtain be fl' c' tr where
    eq: "uxst_connect_server g env c fl = connect_issue env be fd fl' c' tr"
    and nh: "filter is_readiness_hint tr = []" by blast
  show ?thesis using issue_rule [OF nh, of env fd be fl' c'] unfolding eq connect_rule_def .
qed

theorem C7_connect_classification_witness:
  "E_connect 7 \<in> set (trace (uxst_connect_server ex_globals ex_connect_env ex_conn 0))
   \<and> ce_connect ex_connect_env = Ret ()
   \<and> co_flags (conn (uxst_connect_server ex_globals ex_connect_env ex_conn 0))
       AND CO_FL_WAIT_L4_CONN = 0
   \<and> filter is_readiness_hint (trace (uxst_connect_server ex_globals ex_connect_env ex_conn 0))
       = []
   \<and> outcome (uxst_connect_server ex_globals ex_connect_env ex_conn 0) = SF_ERR_NONE
   \<and> E_connect 7 \<in> set (trace (uxst_connect_server ex_globals
         (ex_connect_env\<lparr>ce_connect := Err EINPROGRESS\<rparr>) ex_conn 0))
   \<and> co_flags (conn (uxst_connect_server ex_globals
         (ex_connect_env\<lparr>ce_connect := Err EINPROGRESS\<rparr>) ex_conn 0))
       AND CO_FL_WAIT_L4_CONN = CO_FL_WAIT_L4_CONN
   \<and> filter is_readiness_hint (trace (uxst_connect_server ex_globals
         (ex_connect_env\<lparr>ce_connect := Err EINPROGRESS\<rparr>) ex_conn 0))
       = [E_fd_want_send 7, E_fd_cant_send 7, E_fd_cant_recv 7]
   \<and> E_connect 7 \<in> set (trace (uxst_connect_server ex_globals
         (ex_connect_env\<lparr>ce_connect := Err ECONNREFUSED\<rparr>) ex_conn 0))
   \<and> outcome (uxst_connect_server ex_globals
         (ex_connect_env\<lparr>ce_connect := Err ECONNREFUSED\<rparr>) ex_conn 0) = SF_ERR_SRVCL"
proof -
  have h1: "E_connect 7 \<in> set (trace (uxst_connect_server ex_globals ex_connect_env ex_conn 0))"
    by (simp add: uxst_connect_server_def connect_issue_def connect_established_def Let_def
        ex_globals_def ex_connect_env_def ex_conn_def)
  have h2: "E_connect 7 \<in> set (trace (uxst_connect_server ex_globals
         (ex_connect_env\<lparr>ce_connect := Err EINPROGRESS\<rparr>) ex_conn 0))"
    by (simp add: uxst_connect_server_def connect_issue_def connect_established_def Let_def
        ex_globals_def ex_connect_env_def ex_conn_def)
  have h3: "E_connect 7 \<in> set (trace (uxst_connect_server ex_globals
         (ex_connect_env\<lparr>ce_connect := Err ECONNREFUSED\<rparr>) ex_conn 0))"
    by (simp add: uxst_connect_server_def connect_issue_def connect_established_def Let_def
        ex_globals_def ex_connect_env_def ex_conn_def)
  have e1: "ce_connect ex_connect_env = Ret ()"
    and e2: "ce_connect (ex_connect_env\<lparr>ce_connect := Err EINPROGRESS\<rparr>) = Err EINPROGRESS"
    and e3: "ce_connect (ex_connect_env\<lparr>ce_connect := Err ECONNREFUSED\<rparr>) = Err ECONNREFUSED"
    and e4: "ECONNREFUSED \<notin> {EINPROGRESS, EALREADY, EISCONN, EAGAIN, EADDRINUSE,
                              EADDRNOTAVAIL, ETIMEDOUT}"
    and x: "0 \<le> ce_conn_xprt_init ex_connect_env"
    by (simp_all add: ex_connect_env_def)
  from C7_connect_classification [OF h1] e1 x
  have c1: "co_flags (conn (uxst_connect_server ex_globals ex_connect_env ex_conn 0))
       AND CO_FL_WAIT_L4_CONN = 0
   \<and> filter is_readiness_hint (trace (uxst_connect_server ex_globals ex_connect_env ex_conn 0))
       = []
   \<and> outcome (uxst_connect_server ex_globals ex_connect_env ex_conn 0) = SF_ERR_NONE"
    by blast
  from C7_connect_classification [OF h2] e2
  have c2: "co_flags (conn (uxst_connect_server ex_globals
         (ex_connect_env\<lparr>ce_connect := Err EINPROGRESS\<rparr>) ex_conn 0))
       AND CO_FL_WAIT_L4_CONN = CO_FL_WAIT_L4_CONN
   \<and> filter is_readiness_hint (trace (uxst_connect_server ex_globals
         (ex_connect_env\<lparr>ce_connect := Err EINPROGRESS\<rparr>) ex_conn 0))
       = [E_fd_want_send 7, E_fd_cant_send 7, E_fd_cant_recv 7]"
    by blast
  from C7_connect_classification [OF h3] e3 e4
  have c3: "outcome (uxst_connect_server ex_globals
         (ex_connect_env\<lparr>ce_connect := Err ECONNREFUSED\<rparr>) ex_conn 0) = SF_ERR_SRVCL"
    by blast
  show ?thesis using h1 h2 h3 e1 c1 c2 c3 by blast
qed

section \<open>Properties of bind\<close>

subsection \<open>The outcome bits and the failure record\<close>

lemma err_consts [simp]:
  "ERR_NONE OR (ERR_FATAL OR ERR_ALERT) \<noteq> ERR_NONE"
  "ERR_NONE OR (ERR_RETRYABLE OR ERR_ALERT) \<noteq> ERR_NONE"
  "(ERR_NONE OR (ERR_FATAL OR ERR_ALERT)) AND ERR_RETRYABLE = 0"
  "(ERR_NONE OR (ERR_FATAL OR ERR_ALERT)) AND ERR_FATAL = ERR_FATAL"
  "(ERR_NONE OR (ERR_RETRYABLE OR ERR_ALERT)) AND ERR_RETRYABLE = ERR_RETRYABLE"
  "(ERR_NONE OR (ERR_RETRYABLE OR ERR_ALERT)) AND ERR_FATAL = 0"
  "(ERR_NONE OR (ERR_FATAL OR ERR_ALERT)) AND ERR_ABORT = 0"
  "(ERR_NONE OR (ERR_RETRYABLE OR ERR_ALERT)) AND ERR_ABORT = 0"
  "ERR_NONE AND ERR_RETRYABLE = 0" "ERR_NONE AND ERR_ABORT = 0" "ERR_NONE AND ERR_FATAL = 0"
  "ERR_RETRYABLE \<noteq> 0" "ERR_FATAL \<noteq> 0"
  by (simp_all add: ERR_NONE_def ERR_FATAL_def ERR_ALERT_def ERR_RETRYABLE_def ERR_ABORT_def)

lemma bind_fail_sel [simp]:
  "b_err (bind_fail env lv l errmsg errlen fd tr lbl err msg) = err"
  "b_listener (bind_fail env lv l errmsg errlen fd tr lbl err msg) = l"
  "b_trace (bind_fail env lv l errmsg errlen fd tr lbl err msg) = tr @ unwind env lv fd lbl"
  "b_errmsg (bind_fail env lv l errmsg errlen fd tr lbl err msg) =
     (if errlen \<noteq> 0
      then snprintf_buf errmsg (size_t_of_int errlen) (bind_message lv fd msg) else errmsg)"
  by (simp_all add: bind_fail_def)

subsection \<open>Shape of a failed run\<close>

lemma failed_asI:
  "fail_shape env lv fds0 fwd fd lbl msg \<Longrightarrow>
   failed_as env lv l errmsg errlen fds0 fd (bind_fail env lv l errmsg errlen fd fwd lbl err msg)"
  unfolding failed_as_def by blast

lemma switch_shape:
  assumes "holds_fd lv fds0 tr fd"
    and "b_err (bind_switch g env lv l errmsg errlen fd tr) \<noteq> ERR_NONE"
  shows "failed_as env lv l errmsg errlen fds0 fd (bind_switch g env lv l errmsg errlen fd tr)"
proof (cases "\<not> lv_ext lv \<and> lv_path0 lv \<and> be_rename env \<noteq> Ret ()")
  case True
  have "fail_shape env lv fds0 (tr @ [E_rename (lv_tempname lv) (lv_path lv)]) fd err_rename
          ''cannot switch final and temporary UNIX sockets''"
    using assms(1) True
    by (simp add: fail_shape_def holds_fd_def open_fds_append bind_reason_def no_call_reason_def)
  from failed_asI [OF this] show ?thesis using True
    by (simp add: bind_switch_def Let_def)
next
  case False
  then show ?thesis using assms(2) by (auto simp add: bind_switch_def Let_def)
qed

lemma owner_calls_plain [simp]:
  "open_fds (owner_calls env lv bc) fds = fds"
  "filter is_close (owner_calls env lv bc) = []"
  "\<not> list_ex is_rename (owner_calls env lv bc)"
  "\<not> list_ex is_socket (owner_calls env lv bc)"
  "\<not> list_ex is_link (owner_calls env lv bc)"
  by (simp_all add: owner_calls_def)

lemma listen_shape:
  assumes "holds_fd lv fds0 tr fd"
    and "b_err (bind_listen g env lv l errmsg errlen fd tr) \<noteq> ERR_NONE"
  shows "failed_as env lv l errmsg errlen fds0 fd (bind_listen g env lv l errmsg errlen fd tr)"
proof (cases "listens env lv \<and> be_listen env \<noteq> Ret ()")
  case True
  have "fail_shape env lv fds0 (tr @ [E_getsockopt_acceptconn fd, E_listen fd (be_backlog env)]) fd
          err_unlink_temp ''cannot listen to UNIX socket''"
    using assms(1)
    by (auto simp add: fail_shape_def holds_fd_def open_fds_append bind_reason_def no_call_reason_def)
  from failed_asI [OF this] show ?thesis using True
    by (simp add: bind_listen_def)
next
  case False
  have h: "holds_fd lv fds0 (tr @ [E_getsockopt_acceptconn fd]
             @ (if listens env lv then [E_listen fd (be_backlog env)] else [])) fd"
    using assms(1) by (auto simp add: holds_fd_def open_fds_append)
  have eq: "bind_listen g env lv l errmsg errlen fd tr
          = bind_switch g env lv l errmsg errlen fd (tr @ [E_getsockopt_acceptconn fd]
             @ (if listens env lv then [E_listen fd (be_backlog env)] else []))"
    unfolding bind_listen_def by (rule if_not_P [OF False])
  show ?thesis using switch_shape [OF h] assms(2) unfolding eq by blast
qed

lemma owner_reason:
  "chown_failed env lv bc \<or> chmod_failed env lv bc \<Longrightarrow>
   bind_reason env ext (tr @ owner_calls env lv bc) = ''cannot change UNIX socket ownership''"
  by (auto simp add: bind_reason_def owner_calls_def chown_failed_def chmod_failed_def
        does_chmod_def)

lemma bound_shape:
  assumes "holds_fd lv fds0 tr fd"
    and "b_err (bind_bound g env lv l errmsg errlen fd tr) \<noteq> ERR_NONE"
  shows "failed_as env lv l errmsg errlen fds0 fd (bind_bound g env lv l errmsg errlen fd tr)"
proof (cases "chown_failed env lv (li_bind_conf l) \<or> chmod_failed env lv (li_bind_conf l)")
  case True
  have "fail_shape env lv fds0 (tr @ owner_calls env lv (li_bind_conf l)) fd
          err_unlink_temp ''cannot change UNIX socket ownership''"
    using assms(1) owner_reason [OF True]
    by (auto simp add: fail_shape_def holds_fd_def open_fds_append)
  from failed_asI [OF this] show ?thesis using True
    by (simp add: bind_bound_def)
next
  case False
  have h: "holds_fd lv fds0 (tr @ owner_calls env lv (li_bind_conf l)) fd"
    using assms(1) by (auto simp add: holds_fd_def open_fds_append)
  have eq: "bind_bound g env lv l errmsg errlen fd tr
          = bind_listen g env lv l errmsg errlen fd (tr @ owner_calls env lv (li_bind_conf l))"
    unfolding bind_bound_def by (rule if_not_P [OF False])
  show ?thesis using listen_shape [OF h] assms(2) unfolding eq by blast
qed

lemma fd_ready_shape:
  assumes "holds_fd lv fds0 tr fd" and "\<not> list_ex is_bind_call tr"
    and "bind_reason env (lv_ext lv) tr = ''socket(): not enough free sockets, raise -n argument''"
    and "b_err (bind_fd_ready g env lv l errmsg errlen fd addr tr) \<noteq> ERR_NONE"
  shows "failed_as env lv l errmsg errlen fds0 fd
           (bind_fd_ready g env lv l errmsg errlen fd addr tr)"
proof -
  consider (maxsock) "fd \<ge> maxsock g"
    | (fcntl) "\<not> fd \<ge> maxsock g" "be_fcntl env \<noteq> Ret ()"
    | (inuse) "\<not> fd \<ge> maxsock g" "be_fcntl env = Ret ()" "\<not> lv_ext lv"
        "be_bind env = Err EADDRINUSE"
    | (bind) "\<not> fd \<ge> maxsock g" "be_fcntl env = Ret ()" "\<not> lv_ext lv" "be_bind env \<noteq> Ret ()"
        "be_bind env \<noteq> Err EADDRINUSE"
    | (ok) "\<not> fd \<ge> maxsock g" "be_fcntl env = Ret ()" "\<not> (\<not> lv_ext lv \<and> be_bind env \<noteq> Ret ())"
    by blast
  then show ?thesis
  proof cases
    case maxsock
    have "fail_shape env lv fds0 tr fd err_unlink_temp
            ''socket(): not enough free sockets, raise -n argument''"
      using assms(1,3) by (auto simp add: fail_shape_def holds_fd_def)
    from failed_asI [OF this] show ?thesis using maxsock by (simp add: bind_fd_ready_def)
  next
    case fcntl
    have "fail_shape env lv fds0 (tr @ [E_fcntl_nonblock fd]) fd err_unlink_temp
            ''cannot make UNIX socket non-blocking''"
      using assms(1)
      by (auto simp add: fail_shape_def holds_fd_def open_fds_append bind_reason_def no_call_reason_def)
    from failed_asI [OF this] show ?thesis using fcntl by (simp add: bind_fd_ready_def)
  next
    case inuse
    have "fail_shape env lv fds0 (tr @ [E_fcntl_nonblock fd, E_bind fd addr]) fd err_unlink_temp
            ''cannot listen to socket''"
      using assms(1) inuse
      by (auto simp add: fail_shape_def holds_fd_def open_fds_append bind_reason_def)
    from failed_asI [OF this] show ?thesis using inuse by (simp add: bind_fd_ready_def)
  next
    case bind
    have "fail_shape env lv fds0 (tr @ [E_fcntl_nonblock fd, E_bind fd addr]) fd err_unlink_temp
            ''cannot bind UNIX socket''"
      using assms(1) bind
      by (auto simp add: fail_shape_def holds_fd_def open_fds_append bind_reason_def)
    from failed_asI [OF this] show ?thesis using bind by (simp add: bind_fd_ready_def)
  next
    case ok
    have h: "holds_fd lv fds0 (tr @ [E_fcntl_nonblock fd]
             @ (if \<not> lv_ext lv then [E_bind fd addr] else [])) fd"
      using assms(1) by (auto simp add: holds_fd_def open_fds_append)
    have eq: "bind_fd_ready g env lv l errmsg errlen fd addr tr
          = bind_bound g env lv l errmsg errlen fd (tr @ [E_fcntl_nonblock fd]
             @ (if \<not> lv_ext lv then [E_bind fd addr] else []))"
      using ok by (auto simp add: bind_fd_ready_def)
    show ?thesis using bound_shape [OF h] assms(4) unfolding eq by blast
  qed
qed


lemma socket_shape:
  assumes "open_fds tr [] = []" "filter is_close tr = []"
    "\<not> list_ex is_rename tr" "\<not> list_ex is_bind_call tr"
    "\<not> lv_ext lv" "list_ex is_link tr \<longrightarrow> lv_path0 lv"
    and "b_err (bind_socket g env lv l errmsg errlen addr tr) \<noteq> ERR_NONE"
  shows "\<exists>fd. failed_as env lv l errmsg errlen [] fd
           (bind_socket g env lv l errmsg errlen addr tr)"
proof (cases "be_socket env")
  case (Err e)
  have "fail_shape env lv [] (tr @ [E_socket (- 1)]) (- 1) err_unlink_back
          ''cannot create UNIX socket''"
    using assms(1-6)
    by (simp add: fail_shape_def open_fds_append bind_reason_def no_call_reason_def)
  from failed_asI [OF this] show ?thesis using Err
    by (simp add: bind_socket_def) blast
next
  case (Ret n)
  have h: "holds_fd lv [] (tr @ [E_socket (int n)]) (int n)"
    using assms(1-6) by (simp add: holds_fd_def open_fds_append)
  have nb: "\<not> list_ex is_bind_call (tr @ [E_socket (int n)])"
    using assms(4) by simp
  have rs: "bind_reason env (lv_ext lv) (tr @ [E_socket (int n)])
          = ''socket(): not enough free sockets, raise -n argument''"
    by (simp add: bind_reason_def)
  have eq: "bind_socket g env lv l errmsg errlen addr tr
          = bind_fd_ready g env lv l errmsg errlen (int n) addr (tr @ [E_socket (int n)])"
    using Ret by (simp add: bind_socket_def)
  show ?thesis using fd_ready_shape [OF h nb rs] assms(7) unfolding eq by blast
qed

lemma path_files_shape:
  assumes "tr = [] \<or> tr = [E_sock_find_compatible_fd]" "\<not> lv_ext lv"
    and "length (lv_tempname lv) < sun_path_size g \<and> lv_path0 lv"
    and "b_err (bind_path_files g env lv l errmsg errlen tr) \<noteq> ERR_NONE"
  shows "\<exists>fd. failed_as env lv l errmsg errlen [] fd
           (bind_path_files g env lv l errmsg errlen tr)"
proof -
  let ?tr3 = "tr @ [E_unlink (lv_tempname lv), E_unlink (lv_backname lv),
                    E_link (lv_path lv) (lv_backname lv)]"
  consider (u1) "failed_not_ENOENT (be_unlink_temp env)"
    | (u2) "\<not> failed_not_ENOENT (be_unlink_temp env)" "failed_not_ENOENT (be_unlink_back env)"
    | (ln) "\<not> failed_not_ENOENT (be_unlink_temp env)" "\<not> failed_not_ENOENT (be_unlink_back env)"
           "failed_not_ENOENT (be_link env)"
    | (ok) "\<not> failed_not_ENOENT (be_unlink_temp env)" "\<not> failed_not_ENOENT (be_unlink_back env)"
           "\<not> failed_not_ENOENT (be_link env)"
    by blast
  then show ?thesis
  proof cases
    case u1
    have "fail_shape env lv [] (tr @ [E_unlink (lv_tempname lv)]) (- 1) err_return
            ''error when trying to unlink previous UNIX socket''"
      using assms(1,2,3) by (auto simp add: fail_shape_def bind_reason_def no_call_reason_def)
    from failed_asI [OF this] show ?thesis using u1
      by (simp add: bind_path_files_def) blast
  next
    case u2
    have "fail_shape env lv [] (tr @ [E_unlink (lv_tempname lv), E_unlink (lv_backname lv)])
            (- 1) err_return ''error when trying to unlink previous UNIX socket''"
      using assms(1,2,3) by (auto simp add: fail_shape_def bind_reason_def no_call_reason_def)
    from failed_asI [OF this] show ?thesis using u2
      by (simp add: bind_path_files_def) blast
  next
    case ln
    have "fail_shape env lv [] ?tr3 (- 1) err_return
            ''error when trying to preserve previous UNIX socket''"
      using assms(1,2,3) ln by (auto simp add: fail_shape_def bind_reason_def no_call_reason_def)
    from failed_asI [OF this] show ?thesis using ln
      by (simp add: bind_path_files_def) blast
  next
    case ok
    have h: "open_fds ?tr3 [] = []" "filter is_close ?tr3 = []"
      "\<not> list_ex is_rename ?tr3" "\<not> list_ex is_bind_call ?tr3"
      using assms(1) by auto
    have h6: "list_ex is_link ?tr3 \<longrightarrow> lv_path0 lv" using assms(3) by simp
    have eq: "bind_path_files g env lv l errmsg errlen tr
          = bind_socket g env lv l errmsg errlen
              (pad (sun_path_size g - 1) (lv_tempname lv) @ [NUL]) ?tr3"
      using ok assms(3) by (simp add: bind_path_files_def)
    show ?thesis using socket_shape [OF h assms(2) h6] assms(4) unfolding eq by blast
  qed
qed

lemma path_shape:
  assumes "tr = [] \<or> tr = [E_sock_find_compatible_fd]"
    and "b_err (bind_path g env l errmsg errlen tr) \<noteq> ERR_NONE"
  shows "\<exists>fd. failed_as env (path_locals g (c_str (li_sun_path l))) l errmsg errlen [] fd
           (bind_path g env l errmsg errlen tr)"
proof -
  let ?lv = "path_locals g (c_str (li_sun_path l))"
  have ne: "\<not> lv_ext ?lv" by (simp add: path_locals_def)
  have sh: "fail_shape env ?lv [] tr (- 1) err_return
              ''name too long for UNIX socket (limit usually 97)''"
    using assms(1) ne by (auto simp add: fail_shape_def bind_reason_def no_call_reason_def)
  show ?thesis
  proof (cases "length (temp_text g (c_str (li_sun_path l))) \<ge> sun_path_size g
              \<or> length (back_text g (c_str (li_sun_path l))) \<ge> maxpathlen g")
    case True
    then show ?thesis using failed_asI [OF sh]
      by (auto simp add: bind_path_def) blast+
  next
    case False
    then have len: "length (lv_tempname ?lv) < sun_path_size g \<and> lv_path0 ?lv"
      by (auto simp add: path_locals_def min_less_iff_disj)
    have eq: "bind_path g env l errmsg errlen tr
            = bind_path_files g env ?lv l errmsg errlen tr"
      using False by (simp add: bind_path_def)
    show ?thesis using path_files_shape [OF assms(1) ne len] assms(2) unfolding eq by blast
  qed
qed

lemma bind_shape:
  assumes "li_state l = LI_ASSIGNED"
    and "b_err (uxst_bind_listener g env l errmsg errlen) \<noteq> ERR_NONE"
  shows "\<exists>lv fd fwd lbl err msg.
      uxst_bind_listener g env l errmsg errlen
        = bind_fail env lv (if li_fd l = - 1 then l\<lparr>li_fd := be_find_fd env\<rparr> else l)
            (if errlen \<noteq> 0 then errmsg(0 := NUL) else errmsg) errlen fd fwd lbl err msg
    \<and> fail_shape env lv
        (if 0 \<le> li_fd (if li_fd l = - 1 then l\<lparr>li_fd := be_find_fd env\<rparr> else l)
         then [li_fd (if li_fd l = - 1 then l\<lparr>li_fd := be_find_fd env\<rparr> else l)] else [])
        fwd fd lbl msg
    \<and> lv_ext lv = (0 \<le> li_fd (if li_fd l = - 1 then l\<lparr>li_fd := be_find_fd env\<rparr> else l))
    \<and> (lv_ext lv \<longrightarrow> fd = li_fd (if li_fd l = - 1 then l\<lparr>li_fd := be_find_fd env\<rparr> else l))
    \<and> lv_path lv = c_str (li_sun_path l)
    \<and> lv_path0 lv = (first_byte (li_sun_path l) \<noteq> NUL)
    \<and> (\<not> lv_ext lv \<and> lv_path0 lv \<longrightarrow> lv = path_locals g (c_str (li_sun_path l)))"
proof -
  let ?l = "if li_fd l = - 1 then l\<lparr>li_fd := be_find_fd env\<rparr> else l"
  let ?tr = "if li_fd l = - 1 then [E_sock_find_compatible_fd] else []"
  let ?m = "if errlen \<noteq> 0 then errmsg(0 := NUL) else errmsg"
  let ?lve = "\<lparr>lv_ext = True, lv_path = c_str (li_sun_path ?l),
               lv_path0 = (first_byte (li_sun_path ?l) \<noteq> NUL),
               lv_tempname = [], lv_backname = []\<rparr>"
  let ?lva = "\<lparr>lv_ext = False, lv_path = c_str (li_sun_path ?l), lv_path0 = False,
               lv_tempname = [], lv_backname = []\<rparr>"
  have sp: "li_sun_path ?l = li_sun_path l" by simp
  have tr: "?tr = [] \<or> ?tr = [E_sock_find_compatible_fd]" by simp
  consider (ext) "0 \<le> li_fd ?l"
    | (path) "\<not> 0 \<le> li_fd ?l" "first_byte (li_sun_path l) \<noteq> NUL"
    | (abstract) "\<not> 0 \<le> li_fd ?l" "\<not> first_byte (li_sun_path l) \<noteq> NUL"
    by blast
  then show ?thesis
  proof cases
    case ext
    have eq: "uxst_bind_listener g env l errmsg errlen
            = bind_fd_ready g env ?lve ?l ?m errlen (li_fd ?l) [] ?tr"
      using assms(1) ext by (simp add: uxst_bind_listener_def Let_def)
    have h: "holds_fd ?lve [li_fd ?l] ?tr (li_fd ?l)" "\<not> list_ex is_bind_call ?tr"
      "bind_reason env (lv_ext ?lve) ?tr = ''socket(): not enough free sockets, raise -n argument''"
      by (simp_all add: holds_fd_def bind_reason_def no_call_reason_def)
    from fd_ready_shape [OF h] assms(2) [unfolded eq]
    have "failed_as env ?lve ?l ?m errlen [li_fd ?l] (li_fd ?l)
            (bind_fd_ready g env ?lve ?l ?m errlen (li_fd ?l) [] ?tr)" by blast
    then show ?thesis unfolding eq failed_as_def using ext sp
      by (fastforce simp del: sp)
  next
    case path
    have eq: "uxst_bind_listener g env l errmsg errlen = bind_path g env ?l ?m errlen ?tr"
      using assms(1) path by (simp add: uxst_bind_listener_def Let_def)
    from path_shape [OF tr] assms(2) [unfolded eq]
    obtain fd where "failed_as env (path_locals g (c_str (li_sun_path ?l))) ?l ?m errlen [] fd
           (bind_path g env ?l ?m errlen ?tr)" by blast
    then show ?thesis unfolding eq failed_as_def using path sp
      by (fastforce simp add: path_locals_def simp del: sp)
  next
    case abstract
    have eq: "uxst_bind_listener g env l errmsg errlen
           = bind_socket g env ?lva ?l ?m errlen (pad (sun_path_size g) (li_sun_path ?l)) ?tr"
      using assms(1) abstract by (simp add: uxst_bind_listener_def Let_def)
    have h: "open_fds ?tr [] = []" "filter is_close ?tr = []" "\<not> list_ex is_rename ?tr"
      "\<not> list_ex is_bind_call ?tr" "\<not> lv_ext ?lva" "list_ex is_link ?tr \<longrightarrow> lv_path0 ?lva"
      by simp_all
    from socket_shape [OF h] assms(2) [unfolded eq]
    obtain fd where "failed_as env ?lva ?l ?m errlen [] fd
           (bind_socket g env ?lva ?l ?m errlen (pad (sun_path_size g) (li_sun_path ?l)) ?tr)"
      by blast
    then show ?thesis unfolding eq failed_as_def using abstract sp
      by (fastforce simp del: sp)
  qed
qed

lemma snprintf_buf_outside: "0 < n \<Longrightarrow> n \<le> i \<Longrightarrow> snprintf_buf buf n s i = buf i"
  by (auto simp add: snprintf_buf_def)

lemma snprintf_buf_text:
  assumes "n \<noteq> 0"
  shows "(\<forall>i < min (length s) (n - 1). snprintf_buf buf n s i = s ! i)
       \<and> snprintf_buf buf n s (min (length s) (n - 1)) = NUL
       \<and> (\<forall>i > min (length s) (n - 1). snprintf_buf buf n s i = buf i)"
  using assms by (auto simp add: snprintf_buf_def min_def)

lemma size_t_of_int_nat: "0 \<le> i \<Longrightarrow> i < 2 ^ 64 \<Longrightarrow> size_t_of_int i = nat i"
  by (simp add: size_t_of_int_def)

text \<open>Unfolding the stages of bind at a concrete input.\<close>

lemmas bind_eval =
  uxst_bind_listener_def bind_path_def bind_path_files_def bind_socket_def bind_fd_ready_def
  bind_bound_def bind_listen_def bind_switch_def path_locals_def temp_text_def back_text_def
  maxpathlen_def show_int_def show_nat.simps chown_failed_def does_chown_def chmod_failed_def
  does_chmod_def owner_calls_def listens_def Let_def
  from_err_rename_def from_err_unlink_temp_def from_err_unlink_back_def
  ex_globals_def ex_listener_def ex_bind_env_def ex_bind_conf_def

text \<open>
  Claim C4, as stated, ties each step of the unwinding to what the run created.  The code
  ties it to the label reached and to \<^verbatim>\<open>!ext && path[0]\<close>.  First input: a listener that
  carries the descriptor 3 supplied from outside, and \<open>fcntl\<close> fails.  The run calls no
  \<open>socket()\<close>, so it created no descriptor, and it closes descriptor 3.  Second input: a
  path-backed listener without descriptor, \<open>link()\<close> fails with \<open>ENOENT\<close> (there was no
  previous socket, so no backup file is created) and \<open>fcntl\<close> fails (so \<open>bind()\<close>, which
  creates the temporary file, is never called).  The unwinding unlinks the temporary name
  and the backup name all the same.
\<close>

theorem C4_counterexample:
  "li_state (ex_listener\<lparr>li_fd := 3\<rparr>) = LI_ASSIGNED
   \<and> b_err (uxst_bind_listener ex_globals (ex_bind_env\<lparr>be_fcntl := Err EACCES\<rparr>)
        (ex_listener\<lparr>li_fd := 3\<rparr>) ex_buffer 0) \<noteq> ERR_NONE
   \<and> b_trace (uxst_bind_listener ex_globals (ex_bind_env\<lparr>be_fcntl := Err EACCES\<rparr>)
        (ex_listener\<lparr>li_fd := 3\<rparr>) ex_buffer 0)
       = [E_fcntl_nonblock 3, E_close 3]
   \<and> li_state ex_listener = LI_ASSIGNED
   \<and> b_err (uxst_bind_listener ex_globals
        (ex_bind_env\<lparr>be_link := Err ENOENT, be_fcntl := Err EACCES\<rparr>)
        ex_listener ex_buffer 0) \<noteq> ERR_NONE
   \<and> b_trace (uxst_bind_listener ex_globals
        (ex_bind_env\<lparr>be_link := Err ENOENT, be_fcntl := Err EACCES\<rparr>)
        ex_listener ex_buffer 0)
       = [E_sock_find_compatible_fd,
          E_unlink ''/run/s.4242.tmp'', E_unlink ''/run/s.4242.bak'',
          E_link ''/run/s'' ''/run/s.4242.bak'', E_socket 5, E_fcntl_nonblock 5,
          E_unlink ''/run/s.4242.tmp'', E_close 5, E_unlink ''/run/s.4242.bak'']"
  by (simp add: bind_eval c_str_def NUL_def)

text \<open>
  Claim C4, amended.  Let bind fail on an ASSIGNED listener, let \<open>ext\<close> say that the
  listener carries a descriptor when the body starts (its own or the one found by
  \<open>sock_find_compatible_fd\<close>), and let \<open>on_file\<close> say that the listener is path-backed
  and not externally supplied.  Then the calls of the run are a forward part \<open>fwd\<close>, in
  which nothing is closed, followed by the unwinding, in this order:
  \<^item> if the forward part called \<open>rename\<close> (the switch of the sockets, which then is the
    failing call): \<open>rename(backname, path)\<close>, and \<open>unlink(path)\<close> when that rename
    fails with \<open>ENOENT\<close>;
  \<^item> \<open>unlink(tempname)\<close>, when \<open>on_file\<close> and a descriptor is held, whether or not
    \<open>bind()\<close> was reached and created the file;
  \<^item> \<open>close(fd)\<close> of the descriptor held after the forward part (at most one): the one
    \<open>socket()\<close> returned, or the externally supplied one, which bind did not create;
  \<^item> \<open>unlink(backname)\<close>, when \<open>on_file\<close> and \<open>socket()\<close> was called, whether or not
    \<open>link()\<close> created the file.
  What was created is undone: a forward part that called \<open>bind()\<close> (which creates the
  temporary file) holds a descriptor, and one whose \<open>link()\<close> did not fail with an errno
  other than \<open>ENOENT\<close> has called \<open>socket()\<close>.
  The message is the text \<open>mtext\<close>: the static reason of the step that failed (the last
  call of the forward part), followed by \<open>[path]\<close>, or by \<open>[fd n]\<close> for an externally
  supplied descriptor.  With \<open>n\<close> the length \<open>errlen\<close> as a \<open>size_t\<close>, and \<open>n\<close> not 0,
  the buffer holds the first \<open>k\<close> characters of \<open>mtext\<close>, \<open>k\<close> being the smaller of its
  length and \<open>n - 1\<close>, then a NUL at offset \<open>k\<close>, and every byte after that is as the caller
  left it.  Nothing is written when \<open>errlen\<close> is 0; only the NUL at offset 0 when \<open>n\<close> is 0
  and \<open>errlen\<close> is not; for a positive \<open>errlen\<close> no byte at an offset of \<open>errlen\<close> or
  more is changed.
\<close>

theorem C4_bind_unwind:
  assumes "li_state l = LI_ASSIGNED"
    and "b_err (uxst_bind_listener g env l errmsg errlen) \<noteq> ERR_NONE"
    and "r = uxst_bind_listener g env l errmsg errlen"
    and "path = c_str (li_sun_path l)"
    and "tempname = lv_tempname (path_locals g path)"
    and "backname = lv_backname (path_locals g path)"
    and "ext = (0 \<le> li_fd (b_listener r))"
    and "on_file = (\<not> ext \<and> first_byte (li_sun_path l) \<noteq> NUL)"
    and "fds0 = (if ext then [li_fd (b_listener r)] else [])"
    and "n = size_t_of_int errlen"
  shows "(\<exists>fwd mtext k.
       b_trace r =
         fwd
         @ (if list_ex is_rename fwd
            then E_rename backname path
                 # (if be_rename_back env = Err ENOENT then [E_unlink path] else [])
            else [])
         @ (if on_file \<and> open_fds fwd fds0 \<noteq> [] then [E_unlink tempname] else [])
         @ map E_close (open_fds fwd fds0)
         @ (if on_file \<and> list_ex is_socket fwd then [E_unlink backname] else [])
     \<and> filter is_close fwd = []
     \<and> length (open_fds fwd fds0) \<le> 1
     \<and> (list_ex is_bind_call fwd \<longrightarrow> open_fds fwd fds0 \<noteq> [])
     \<and> (list_ex is_link fwd \<and> \<not> failed_not_ENOENT (be_link env)
          \<longrightarrow> on_file \<and> list_ex is_socket fwd)
     \<and> mtext = bind_text env ext (li_fd (b_listener r)) path fwd
     \<and> k = min (length mtext) (n - 1)
     \<and> (errlen \<noteq> 0 \<and> n \<noteq> 0 \<longrightarrow>
          (\<forall>i < k. b_errmsg r i = mtext ! i)
        \<and> b_errmsg r k = NUL
        \<and> (\<forall>i > k. b_errmsg r i = errmsg i)))
   \<and> (errlen = 0 \<longrightarrow> b_errmsg r = errmsg)
   \<and> (errlen \<noteq> 0 \<and> n = 0 \<longrightarrow> b_errmsg r = errmsg(0 := NUL))
   \<and> (0 < errlen \<and> errlen < 2 ^ 64 \<longrightarrow> (\<forall>i \<ge> nat errlen. b_errmsg r i = errmsg i))"
proof -
  let ?l = "if li_fd l = - 1 then l\<lparr>li_fd := be_find_fd env\<rparr> else l"
  let ?m = "if errlen \<noteq> 0 then errmsg(0 := NUL) else errmsg"
  from bind_shape [OF assms(1,2)] obtain lv fd fwd lbl err msg where
    eq: "uxst_bind_listener g env l errmsg errlen
          = bind_fail env lv ?l ?m errlen fd fwd lbl err msg"
    and sh: "fail_shape env lv (if 0 \<le> li_fd ?l then [li_fd ?l] else []) fwd fd lbl msg"
    and lv: "lv_ext lv = (0 \<le> li_fd ?l)" "lv_ext lv \<longrightarrow> fd = li_fd ?l"
      "lv_path lv = c_str (li_sun_path l)"
      "lv_path0 lv = (first_byte (li_sun_path l) \<noteq> NUL)"
      "\<not> lv_ext lv \<and> lv_path0 lv \<longrightarrow> lv = path_locals g (c_str (li_sun_path l))"
    by blast
  have r: "r = bind_fail env lv ?l ?m errlen fd fwd lbl err msg"
    using assms(3) eq by simp
  have bl: "b_listener r = ?l" unfolding r by simp
  have ext: "ext = lv_ext lv" using assms(7) lv(1) bl by simp
  have fds0: "fds0 = (if 0 \<le> li_fd ?l then [li_fd ?l] else [])"
    using assms(9) assms(7) bl by simp
  have onf: "on_file = (\<not> lv_ext lv \<and> lv_path0 lv)"
    using assms(8) ext lv(4) by simp
  have names: "on_file \<Longrightarrow> lv_tempname lv = tempname \<and> lv_backname lv = backname"
    using lv(5) onf assms(4,5,6) by simp
  have path: "lv_path lv = path" using lv(3) assms(4) by simp
  have tr: "b_trace r = fwd @ unwind env lv fd lbl" unfolding r by simp
  have fc: "filter is_close fwd = []" using sh by (simp add: fail_shape_def)
  have p1: "b_trace r =
         fwd
         @ (if list_ex is_rename fwd
            then E_rename backname path
                 # (if be_rename_back env = Err ENOENT then [E_unlink path] else [])
            else [])
         @ (if on_file \<and> open_fds fwd fds0 \<noteq> [] then [E_unlink tempname] else [])
         @ map E_close (open_fds fwd fds0)
         @ (if on_file \<and> list_ex is_socket fwd then [E_unlink backname] else [])"
    using sh names path onf ext unfolding tr fds0 [symmetric]
    by (cases lbl)
       (auto simp add: fail_shape_def from_err_rename_def from_err_unlink_temp_def
          from_err_unlink_back_def)
  have p2: "length (open_fds fwd fds0) \<le> 1"
    using sh unfolding fds0 [symmetric] by (cases lbl) (simp_all add: fail_shape_def)
  have p3: "list_ex is_bind_call fwd \<longrightarrow> open_fds fwd fds0 \<noteq> []"
    using sh unfolding fds0 [symmetric] by (cases lbl) (simp_all add: fail_shape_def)
  have p4: "list_ex is_link fwd \<and> \<not> failed_not_ENOENT (be_link env)
          \<longrightarrow> on_file \<and> list_ex is_socket fwd"
    using sh onf ext unfolding fds0 [symmetric]
    by (cases lbl) (auto simp add: fail_shape_def)
  have msg: "msg = bind_reason env ext fwd" using sh ext by (simp add: fail_shape_def)
  have tx: "bind_message lv fd msg = bind_text env ext (li_fd (b_listener r)) path fwd"
    unfolding bl using ext lv(2) path msg by (simp add: bind_message_def bind_text_def)
  have m0: "errlen = 0 \<longrightarrow> b_errmsg r = errmsg" unfolding r by simp
  have m1: "errlen \<noteq> 0 \<Longrightarrow> b_errmsg r =
             snprintf_buf (errmsg(0 := NUL)) n
               (bind_text env ext (li_fd (b_listener r)) path fwd)"
    using tx assms(10) unfolding r by simp
  have m3: "errlen \<noteq> 0 \<and> n = 0 \<longrightarrow> b_errmsg r = errmsg(0 := NUL)"
    using m1 by (simp add: snprintf_buf_def)
  have m4: "errlen \<noteq> 0 \<and> n \<noteq> 0 \<longrightarrow>
          (\<forall>i < min (length (bind_text env ext (li_fd (b_listener r)) path fwd)) (n - 1).
              b_errmsg r i = bind_text env ext (li_fd (b_listener r)) path fwd ! i)
        \<and> b_errmsg r (min (length (bind_text env ext (li_fd (b_listener r)) path fwd)) (n - 1))
            = NUL
        \<and> (\<forall>i > min (length (bind_text env ext (li_fd (b_listener r)) path fwd)) (n - 1).
              b_errmsg r i = errmsg i)"
  proof (intro impI)
    assume a: "errlen \<noteq> 0 \<and> n \<noteq> 0"
    then have n: "n \<noteq> 0" and e: "errlen \<noteq> 0" by simp_all
    show "(\<forall>i < min (length (bind_text env ext (li_fd (b_listener r)) path fwd)) (n - 1).
              b_errmsg r i = bind_text env ext (li_fd (b_listener r)) path fwd ! i)
        \<and> b_errmsg r (min (length (bind_text env ext (li_fd (b_listener r)) path fwd)) (n - 1))
            = NUL
        \<and> (\<forall>i > min (length (bind_text env ext (li_fd (b_listener r)) path fwd)) (n - 1).
              b_errmsg r i = errmsg i)"
      using snprintf_buf_text [OF n, of "bind_text env ext (li_fd (b_listener r)) path fwd"
          "errmsg(0 := NUL)"]
      unfolding m1 [OF e] by auto
  qed
  have m2: "0 < errlen \<and> errlen < 2 ^ 64 \<longrightarrow> (\<forall>i \<ge> nat errlen. b_errmsg r i = errmsg i)"
  proof (intro impI allI)
    fix i assume a: "0 < errlen \<and> errlen < 2 ^ 64" and i: "nat errlen \<le> i"
    have "size_t_of_int errlen = nat errlen" using a by (simp add: size_t_of_int_nat)
    moreover have "i \<noteq> 0" using a i by linarith
    ultimately show "b_errmsg r i = errmsg i" unfolding r using a i
      by (simp add: snprintf_buf_outside)
  qed
  have part1: "\<exists>fwd mtext k.
       b_trace r =
         fwd
         @ (if list_ex is_rename fwd
            then E_rename backname path
                 # (if be_rename_back env = Err ENOENT then [E_unlink path] else [])
            else [])
         @ (if on_file \<and> open_fds fwd fds0 \<noteq> [] then [E_unlink tempname] else [])
         @ map E_close (open_fds fwd fds0)
         @ (if on_file \<and> list_ex is_socket fwd then [E_unlink backname] else [])
     \<and> filter is_close fwd = []
     \<and> length (open_fds fwd fds0) \<le> 1
     \<and> (list_ex is_bind_call fwd \<longrightarrow> open_fds fwd fds0 \<noteq> [])
     \<and> (list_ex is_link fwd \<and> \<not> failed_not_ENOENT (be_link env)
          \<longrightarrow> on_file \<and> list_ex is_socket fwd)
     \<and> mtext = bind_text env ext (li_fd (b_listener r)) path fwd
     \<and> k = min (length mtext) (n - 1)
     \<and> (errlen \<noteq> 0 \<and> n \<noteq> 0 \<longrightarrow>
          (\<forall>i < k. b_errmsg r i = mtext ! i)
        \<and> b_errmsg r k = NUL
        \<and> (\<forall>i > k. b_errmsg r i = errmsg i))"
    apply (rule exI [of _ fwd])
    apply (rule exI [of _ "bind_text env ext (li_fd (b_listener r)) path fwd"])
    apply (rule exI [of _ "min (length (bind_text env ext (li_fd (b_listener r)) path fwd)) (n - 1)"])
    using p1 fc p2 p3 p4 m4 by blast
  show ?thesis using part1 m0 m3 m2 by blast
qed

theorem C4_bind_unwind_witness:
  "li_state ex_listener = LI_ASSIGNED
   \<and> b_err (uxst_bind_listener ex_globals
        (ex_bind_env\<lparr>be_link := Err ENOENT, be_rename := Err EACCES, be_rename_back := Err ENOENT\<rparr>)
        ex_listener ex_buffer 10) \<noteq> ERR_NONE
   \<and> b_errmsg (uxst_bind_listener ex_globals
        (ex_bind_env\<lparr>be_link := Err ENOENT, be_rename := Err EACCES, be_rename_back := Err ENOENT\<rparr>)
        ex_listener ex_buffer 10) 10 = ex_buffer 10
   \<and> map (b_errmsg (uxst_bind_listener ex_globals
        (ex_bind_env\<lparr>be_link := Err ENOENT, be_rename := Err EACCES, be_rename_back := Err ENOENT\<rparr>)
        ex_listener ex_buffer 10)) [0..<12]
      = ''cannot sw'' @ [NUL, CHR ''x'', CHR ''x'']
   \<and> c_str (map (b_errmsg (uxst_bind_listener ex_globals
        (ex_bind_env\<lparr>be_fcntl := Err EACCES\<rparr>) (ex_listener\<lparr>li_fd := 3\<rparr>) ex_buffer 64))
        [0..<64])
      = ''cannot make UNIX socket non-blocking [fd 3]''
   \<and> drop 9 (b_trace (uxst_bind_listener ex_globals
        (ex_bind_env\<lparr>be_link := Err ENOENT, be_rename := Err EACCES, be_rename_back := Err ENOENT\<rparr>)
        ex_listener ex_buffer 10))
      = [E_rename ''/run/s.4242.tmp'' ''/run/s'',
         E_rename ''/run/s.4242.bak'' ''/run/s'', E_unlink ''/run/s'',
         E_unlink ''/run/s.4242.tmp'', E_close 5, E_unlink ''/run/s.4242.bak'']"
proof -
  let ?env = "ex_bind_env\<lparr>be_link := Err ENOENT, be_rename := Err EACCES, be_rename_back := Err ENOENT\<rparr>"
  have h1: "li_state ex_listener = LI_ASSIGNED" by (simp add: ex_listener_def)
  have h2: "b_err (uxst_bind_listener ex_globals ?env ex_listener ex_buffer 10) \<noteq> ERR_NONE"
    by (simp add: bind_eval c_str_def NUL_def)
  have h3: "drop 9 (b_trace (uxst_bind_listener ex_globals ?env ex_listener ex_buffer 10))
      = [E_rename ''/run/s.4242.tmp'' ''/run/s'',
         E_rename ''/run/s.4242.bak'' ''/run/s'', E_unlink ''/run/s'',
         E_unlink ''/run/s.4242.tmp'', E_close 5, E_unlink ''/run/s.4242.bak'']"
    by (simp add: bind_eval c_str_def NUL_def)
  have h4: "map (b_errmsg (uxst_bind_listener ex_globals ?env ex_listener ex_buffer 10))
        [0..<12]
      = ''cannot sw'' @ [NUL, CHR ''x'', CHR ''x'']"
    by (simp add: bind_eval c_str_def NUL_def bind_message_def snprintf_buf_def
          size_t_of_int_def ex_buffer_def upt_rec [of 0] upt_rec [of "Suc _"]
          upt_rec [of "numeral _"])
  have h5: "c_str (map (b_errmsg (uxst_bind_listener ex_globals
        (ex_bind_env\<lparr>be_fcntl := Err EACCES\<rparr>) (ex_listener\<lparr>li_fd := 3\<rparr>) ex_buffer 64))
        [0..<64])
      = ''cannot make UNIX socket non-blocking [fd 3]''"
    by (simp add: bind_eval c_str_def NUL_def bind_message_def snprintf_buf_def
          size_t_of_int_def ex_buffer_def upt_rec [of 0] upt_rec [of "Suc _"]
          upt_rec [of "numeral _"])
  from C4_bind_unwind [OF h1 h2 refl refl refl refl refl refl refl refl]
  have "0 < (10::int) \<and> (10::int) < 2 ^ 64 \<longrightarrow>
          (\<forall>i \<ge> nat 10. b_errmsg (uxst_bind_listener ex_globals ?env ex_listener ex_buffer 10) i
              = ex_buffer i)"
    by blast
  then have "b_errmsg (uxst_bind_listener ex_globals ?env ex_listener ex_buffer 10) 10
          = ex_buffer 10"
    by simp
  then show ?thesis using h1 h2 h3 h4 h5 by blast
qed

subsection \<open>Retryable and fatal outcomes\<close>

lemma from_err_no_bind [simp]:
  "\<not> list_ex is_bind_call (from_err_rename env lv fd)"
  "\<not> list_ex is_bind_call (from_err_unlink_temp lv fd)"
  "\<not> list_ex is_bind_call (from_err_unlink_back lv)"
  by (simp_all add: from_err_rename_def from_err_unlink_temp_def from_err_unlink_back_def)

lemma unwind_no_bind [simp]: "\<not> list_ex is_bind_call (unwind env lv fd lbl)"
  by (cases lbl) simp_all

lemma retry_rule_fail:
  "\<not> list_ex is_bind_call tr \<Longrightarrow>
   retry_rule env lv (bind_fail env lv l errmsg errlen fd tr lbl
     (ERR_NONE OR (ERR_FATAL OR ERR_ALERT)) msg)"
  by (simp add: retry_rule_def)

lemma switch_retry:
  "b_err (bind_switch g env lv l errmsg errlen fd tr) AND ERR_RETRYABLE = 0
   \<and> list_ex is_bind_call (b_trace (bind_switch g env lv l errmsg errlen fd tr))
       = list_ex is_bind_call tr"
  by (simp add: bind_switch_def Let_def)

lemma listen_retry:
  "b_err (bind_listen g env lv l errmsg errlen fd tr) AND ERR_RETRYABLE = 0
   \<and> list_ex is_bind_call (b_trace (bind_listen g env lv l errmsg errlen fd tr))
       = list_ex is_bind_call tr"
  by (simp add: bind_listen_def switch_retry)

lemma owner_calls_no_bind [simp]: "\<not> list_ex is_bind_call (owner_calls env lv bc)"
  by (simp add: owner_calls_def)

lemma bound_retry:
  "b_err (bind_bound g env lv l errmsg errlen fd tr) AND ERR_RETRYABLE = 0
   \<and> list_ex is_bind_call (b_trace (bind_bound g env lv l errmsg errlen fd tr))
       = list_ex is_bind_call tr"
  by (simp add: bind_bound_def listen_retry)

lemma fd_ready_retry:
  assumes "\<not> list_ex is_bind_call tr"
  shows "retry_rule env lv (bind_fd_ready g env lv l errmsg errlen fd addr tr)"
  using assms
  by (simp add: bind_fd_ready_def retry_rule_def bound_retry)

lemma socket_retry:
  assumes "\<not> list_ex is_bind_call tr"
  shows "retry_rule env lv (bind_socket g env lv l errmsg errlen addr tr)"
proof (cases "be_socket env")
  case (Ret n)
  then show ?thesis using fd_ready_retry [of "tr @ [E_socket (int n)]"] assms
    by (simp add: bind_socket_def)
next
  case (Err e)
  then show ?thesis using retry_rule_fail [of "tr @ [E_socket (- 1)]"] assms
    by (simp add: bind_socket_def)
qed

lemma path_files_retry:
  assumes "\<not> list_ex is_bind_call tr"
  shows "retry_rule env lv (bind_path_files g env lv l errmsg errlen tr)"
  using assms
    socket_retry [of "tr @ [E_unlink (lv_tempname lv), E_unlink (lv_backname lv),
                E_link (lv_path lv) (lv_backname lv)]"]
    retry_rule_fail [of "tr @ [E_unlink (lv_tempname lv), E_unlink (lv_backname lv),
                E_link (lv_path lv) (lv_backname lv)]"]
    retry_rule_fail [of "tr @ [E_unlink (lv_tempname lv), E_unlink (lv_backname lv)]"]
    retry_rule_fail [of "tr @ [E_unlink (lv_tempname lv)]"]
  by (simp add: bind_path_files_def)

lemma path_retry:
  assumes "\<not> list_ex is_bind_call tr"
  shows "retry_rule env (path_locals g (c_str (li_sun_path l)))
           (bind_path g env l errmsg errlen tr)"
  using assms path_files_retry [of tr] retry_rule_fail [of tr]
  by (simp add: bind_path_def)

lemma bind_retry: "\<exists>lv. retry_rule env lv (uxst_bind_listener g env l errmsg errlen)"
proof (cases "li_state l = LI_ASSIGNED")
  case False
  then show ?thesis
    by (simp add: uxst_bind_listener_def retry_rule_def)
next
  case True
  let ?l = "if li_fd l = - 1 then l\<lparr>li_fd := be_find_fd env\<rparr> else l"
  let ?tr = "if li_fd l = - 1 then [E_sock_find_compatible_fd] else []"
  let ?m = "if errlen \<noteq> 0 then errmsg(0 := NUL) else errmsg"
  have nb: "\<not> list_ex is_bind_call ?tr" by simp
  consider (ext) "0 \<le> li_fd ?l"
    | (path) "\<not> 0 \<le> li_fd ?l" "first_byte (li_sun_path l) \<noteq> NUL"
    | (abstract) "\<not> 0 \<le> li_fd ?l" "\<not> first_byte (li_sun_path l) \<noteq> NUL"
    by blast
  then show ?thesis
  proof cases
    case ext
    let ?lv = "\<lparr>lv_ext = True, lv_path = c_str (li_sun_path ?l),
               lv_path0 = (first_byte (li_sun_path ?l) \<noteq> NUL),
               lv_tempname = [], lv_backname = []\<rparr>"
    have eq: "uxst_bind_listener g env l errmsg errlen
            = bind_fd_ready g env ?lv ?l ?m errlen (li_fd ?l) [] ?tr"
      using True ext by (simp add: uxst_bind_listener_def Let_def)
    show ?thesis unfolding eq using fd_ready_retry [OF nb] by blast
  next
    case path
    have eq: "uxst_bind_listener g env l errmsg errlen = bind_path g env ?l ?m errlen ?tr"
      using True path by (simp add: uxst_bind_listener_def Let_def)
    show ?thesis unfolding eq using path_retry [OF nb] by blast
  next
    case abstract
    let ?lv = "\<lparr>lv_ext = False, lv_path = c_str (li_sun_path ?l), lv_path0 = False,
               lv_tempname = [], lv_backname = []\<rparr>"
    have eq: "uxst_bind_listener g env l errmsg errlen
           = bind_socket g env ?lv ?l ?m errlen (pad (sun_path_size g) (li_sun_path ?l)) ?tr"
      using True abstract by (simp add: uxst_bind_listener_def Let_def)
    show ?thesis unfolding eq using socket_retry [OF nb] by blast
  qed
qed

text \<open>
  Claim C5.  If bind calls \<open>bind()\<close> (which it does only for a listener that is not
  externally supplied) and the call fails with errno \<open>e\<close>, then the outcome has the
  retryable bit when \<open>e\<close> is \<open>EADDRINUSE\<close>, and has the fatal bit and not the
  retryable bit for every other \<open>e\<close>.  Conversely an outcome of bind has the retryable
  bit only when \<open>bind()\<close> was called and failed with \<open>EADDRINUSE\<close>.
\<close>

theorem C5_bind_retryable:
  "(list_ex is_bind_call (b_trace (uxst_bind_listener g env l errmsg errlen))
      \<and> be_bind env = Err e \<longrightarrow>
        (e = EADDRINUSE \<longrightarrow>
           b_err (uxst_bind_listener g env l errmsg errlen) AND ERR_RETRYABLE = ERR_RETRYABLE)
      \<and> (e \<noteq> EADDRINUSE \<longrightarrow>
           b_err (uxst_bind_listener g env l errmsg errlen) AND ERR_FATAL = ERR_FATAL
         \<and> b_err (uxst_bind_listener g env l errmsg errlen) AND ERR_RETRYABLE = 0))
   \<and> (b_err (uxst_bind_listener g env l errmsg errlen) AND ERR_RETRYABLE \<noteq> 0 \<longrightarrow>
        list_ex is_bind_call (b_trace (uxst_bind_listener g env l errmsg errlen))
      \<and> be_bind env = Err EADDRINUSE)"
proof -
  let ?r = "uxst_bind_listener g env l errmsg errlen"
  from bind_retry obtain lv where rr: "retry_rule env lv ?r" by blast
  have a: "b_err ?r AND ERR_RETRYABLE = ERR_RETRYABLE"
    if "list_ex is_bind_call (b_trace ?r)" "be_bind env = Err e" "e = EADDRINUSE"
  proof -
    have "b_err ?r = ERR_NONE OR (ERR_RETRYABLE OR ERR_ALERT)"
      using rr that unfolding retry_rule_def by blast
    then show ?thesis by simp
  qed
  have b: "b_err ?r AND ERR_FATAL = ERR_FATAL \<and> b_err ?r AND ERR_RETRYABLE = 0"
    if "list_ex is_bind_call (b_trace ?r)" "be_bind env = Err e" "e \<noteq> EADDRINUSE"
  proof -
    have "be_bind env \<noteq> Err EADDRINUSE \<and> be_bind env \<noteq> Ret ()" using that by simp
    then have "b_err ?r = ERR_NONE OR (ERR_FATAL OR ERR_ALERT)"
      using rr that(1) unfolding retry_rule_def by blast
    then show ?thesis by simp
  qed
  have c: "list_ex is_bind_call (b_trace ?r) \<and> be_bind env = Err EADDRINUSE"
    if "b_err ?r AND ERR_RETRYABLE \<noteq> 0"
    using rr that unfolding retry_rule_def by blast
  show ?thesis using a b c by blast
qed

theorem C5_bind_retryable_witness:
  "list_ex is_bind_call
     (b_trace (uxst_bind_listener ex_globals (ex_bind_env\<lparr>be_bind := Err EADDRINUSE\<rparr>)
                 ex_listener ex_buffer 10))
   \<and> be_bind (ex_bind_env\<lparr>be_bind := Err EADDRINUSE\<rparr>) = Err EADDRINUSE
   \<and> b_err (uxst_bind_listener ex_globals (ex_bind_env\<lparr>be_bind := Err EADDRINUSE\<rparr>)
               ex_listener ex_buffer 10) AND ERR_RETRYABLE = ERR_RETRYABLE
   \<and> list_ex is_bind_call
     (b_trace (uxst_bind_listener ex_globals (ex_bind_env\<lparr>be_bind := Err EACCES\<rparr>)
                 ex_listener ex_buffer 10))
   \<and> be_bind (ex_bind_env\<lparr>be_bind := Err EACCES\<rparr>) = Err EACCES
   \<and> b_err (uxst_bind_listener ex_globals (ex_bind_env\<lparr>be_bind := Err EACCES\<rparr>)
               ex_listener ex_buffer 10) AND ERR_FATAL = ERR_FATAL
   \<and> b_err (uxst_bind_listener ex_globals (ex_bind_env\<lparr>be_bind := Err EACCES\<rparr>)
               ex_listener ex_buffer 10) AND ERR_RETRYABLE = 0"
proof -
  have h1: "list_ex is_bind_call
     (b_trace (uxst_bind_listener ex_globals (ex_bind_env\<lparr>be_bind := Err EADDRINUSE\<rparr>)
                 ex_listener ex_buffer 10))"
    by (simp add: bind_eval c_str_def NUL_def)
  have h2: "list_ex is_bind_call
     (b_trace (uxst_bind_listener ex_globals (ex_bind_env\<lparr>be_bind := Err EACCES\<rparr>)
                 ex_listener ex_buffer 10))"
    by (simp add: bind_eval c_str_def NUL_def)
  have b1: "be_bind (ex_bind_env\<lparr>be_bind := Err EADDRINUSE\<rparr>) = Err EADDRINUSE"
    and b2: "be_bind (ex_bind_env\<lparr>be_bind := Err EACCES\<rparr>) = Err EACCES"
    and ne: "EACCES \<noteq> EADDRINUSE"
    by simp_all
  from C5_bind_retryable [of ex_globals "ex_bind_env\<lparr>be_bind := Err EADDRINUSE\<rparr>"
                             ex_listener ex_buffer 10 EADDRINUSE] h1 b1
  have c1: "b_err (uxst_bind_listener ex_globals (ex_bind_env\<lparr>be_bind := Err EADDRINUSE\<rparr>)
               ex_listener ex_buffer 10) AND ERR_RETRYABLE = ERR_RETRYABLE"
    by blast
  from C5_bind_retryable [of ex_globals "ex_bind_env\<lparr>be_bind := Err EACCES\<rparr>"
                             ex_listener ex_buffer 10 EACCES] h2 b2 ne
  have c2: "b_err (uxst_bind_listener ex_globals (ex_bind_env\<lparr>be_bind := Err EACCES\<rparr>)
               ex_listener ex_buffer 10) AND ERR_FATAL = ERR_FATAL
   \<and> b_err (uxst_bind_listener ex_globals (ex_bind_env\<lparr>be_bind := Err EACCES\<rparr>)
               ex_listener ex_buffer 10) AND ERR_RETRYABLE = 0"
    by blast
  show ?thesis using h1 h2 b1 b2 c1 c2 by blast
qed

subsection \<open>Re-entry\<close>

text \<open>
  Claim C6.  For a listener whose state is not \<open>LI_ASSIGNED\<close> bind returns
  \<open>ERR_NONE\<close>, returns the listener as it was (state and descriptor included) and makes
  no call: no file-system entry is touched.
\<close>

theorem C6_bind_not_assigned:
  assumes "li_state l \<noteq> LI_ASSIGNED"
  shows "b_err (uxst_bind_listener g env l errmsg errlen) = ERR_NONE
       \<and> b_listener (uxst_bind_listener g env l errmsg errlen) = l
       \<and> b_trace (uxst_bind_listener g env l errmsg errlen) = []"
  using assms by (simp add: uxst_bind_listener_def Let_def)

theorem C6_bind_not_assigned_witness:
  "li_state (ex_listener\<lparr>li_state := LI_LISTEN, li_fd := 5\<rparr>) \<noteq> LI_ASSIGNED
   \<and> b_err (uxst_bind_listener ex_globals ex_bind_env
              (ex_listener\<lparr>li_state := LI_LISTEN, li_fd := 5\<rparr>) ex_buffer 10) = ERR_NONE
   \<and> b_listener (uxst_bind_listener ex_globals ex_bind_env
              (ex_listener\<lparr>li_state := LI_LISTEN, li_fd := 5\<rparr>) ex_buffer 10)
       = ex_listener\<lparr>li_state := LI_LISTEN, li_fd := 5\<rparr>
   \<and> b_trace (uxst_bind_listener ex_globals ex_bind_env
              (ex_listener\<lparr>li_state := LI_LISTEN, li_fd := 5\<rparr>) ex_buffer 10) = []"
proof -
  have h: "li_state (ex_listener\<lparr>li_state := LI_LISTEN, li_fd := 5\<rparr>) \<noteq> LI_ASSIGNED"
    by simp
  from C6_bind_not_assigned [OF h] h show ?thesis by blast
qed

subsection \<open>The message buffer on the paths without a message\<close>

lemma switch_ok_errmsg:
  "b_err (bind_switch g env lv l errmsg errlen fd tr) = ERR_NONE \<Longrightarrow>
   b_errmsg (bind_switch g env lv l errmsg errlen fd tr) = errmsg"
  unfolding bind_switch_def Let_def by (auto split: if_splits)

lemma listen_ok_errmsg:
  "b_err (bind_listen g env lv l errmsg errlen fd tr) = ERR_NONE \<Longrightarrow>
   b_errmsg (bind_listen g env lv l errmsg errlen fd tr) = errmsg"
  unfolding bind_listen_def by (auto simp add: switch_ok_errmsg split: if_splits)

lemma bound_ok_errmsg:
  "b_err (bind_bound g env lv l errmsg errlen fd tr) = ERR_NONE \<Longrightarrow>
   b_errmsg (bind_bound g env lv l errmsg errlen fd tr) = errmsg"
  unfolding bind_bound_def by (auto simp add: listen_ok_errmsg split: if_splits)

lemma fd_ready_ok_errmsg:
  "b_err (bind_fd_ready g env lv l errmsg errlen fd addr tr) = ERR_NONE \<Longrightarrow>
   b_errmsg (bind_fd_ready g env lv l errmsg errlen fd addr tr) = errmsg"
  unfolding bind_fd_ready_def by (auto simp add: bound_ok_errmsg split: if_splits)

lemma socket_ok_errmsg:
  "b_err (bind_socket g env lv l errmsg errlen addr tr) = ERR_NONE \<Longrightarrow>
   b_errmsg (bind_socket g env lv l errmsg errlen addr tr) = errmsg"
  unfolding bind_socket_def by (auto simp add: fd_ready_ok_errmsg split: sysret.splits)

lemma path_files_ok_errmsg:
  "b_err (bind_path_files g env lv l errmsg errlen tr) = ERR_NONE \<Longrightarrow>
   b_errmsg (bind_path_files g env lv l errmsg errlen tr) = errmsg"
  unfolding bind_path_files_def by (auto simp add: socket_ok_errmsg split: if_splits)

lemma path_ok_errmsg:
  "b_err (bind_path g env l errmsg errlen tr) = ERR_NONE \<Longrightarrow>
   b_errmsg (bind_path g env l errmsg errlen tr) = errmsg"
  unfolding bind_path_def by (auto simp add: path_files_ok_errmsg split: if_splits)

lemma bind_ok_errmsg:
  "li_state l \<noteq> LI_ASSIGNED \<or> b_err (uxst_bind_listener g env l errmsg errlen) = ERR_NONE \<Longrightarrow>
   b_errmsg (uxst_bind_listener g env l errmsg errlen)
     = (if errlen \<noteq> 0 then errmsg(0 := NUL) else errmsg)"
  unfolding uxst_bind_listener_def Let_def
  by (auto simp add: fd_ready_ok_errmsg path_ok_errmsg socket_ok_errmsg
      split: if_splits)

lemma c_str_empty: "buf 0 = NUL \<Longrightarrow> c_str (map buf [0..<n]) = []"
  by (cases n) (simp_all add: c_str_def upt_conv_Cons del: upt_Suc)

text \<open>
  Claim C10.  When \<open>errlen\<close> is not 0, the first byte of the buffer is set to NUL before
  anything else: the result of bind does not depend on the first byte that the caller
  left there.  On the paths that write no message (the listener is not ASSIGNED, or bind
  succeeds) the buffer returned is the caller's with that first byte NUL, so the string
  in it is empty.
\<close>

theorem C10_errmsg_cleared:
  assumes "errlen \<noteq> 0"
  shows "(li_state l \<noteq> LI_ASSIGNED \<or> b_err (uxst_bind_listener g env l errmsg errlen) = ERR_NONE \<longrightarrow>
            b_errmsg (uxst_bind_listener g env l errmsg errlen) = errmsg(0 := NUL)
          \<and> c_str (map (b_errmsg (uxst_bind_listener g env l errmsg errlen)) [0..<n]) = [])
       \<and> uxst_bind_listener g env l errmsg errlen
           = uxst_bind_listener g env l (errmsg(0 := NUL)) errlen"
proof -
  have "uxst_bind_listener g env l errmsg errlen
           = uxst_bind_listener g env l (errmsg(0 := NUL)) errlen"
    using assms by (simp add: uxst_bind_listener_def)
  moreover have "b_errmsg (uxst_bind_listener g env l errmsg errlen) = errmsg(0 := NUL)
          \<and> c_str (map (b_errmsg (uxst_bind_listener g env l errmsg errlen)) [0..<n]) = []"
    if "li_state l \<noteq> LI_ASSIGNED \<or> b_err (uxst_bind_listener g env l errmsg errlen) = ERR_NONE"
    using bind_ok_errmsg [OF that] assms by (simp add: c_str_empty)
  ultimately show ?thesis by blast
qed

theorem C10_errmsg_cleared_witness:
  "(10::int) \<noteq> 0
   \<and> li_state (ex_listener\<lparr>li_state := LI_LISTEN, li_fd := 5\<rparr>) \<noteq> LI_ASSIGNED
   \<and> b_errmsg (uxst_bind_listener ex_globals ex_bind_env
        (ex_listener\<lparr>li_state := LI_LISTEN, li_fd := 5\<rparr>) ex_buffer 10) 0 = NUL
   \<and> b_err (uxst_bind_listener ex_globals ex_bind_env ex_listener ex_buffer 10) = ERR_NONE
   \<and> b_errmsg (uxst_bind_listener ex_globals ex_bind_env ex_listener ex_buffer 10)
       = ex_buffer(0 := NUL)
   \<and> c_str (map (b_errmsg (uxst_bind_listener ex_globals ex_bind_env ex_listener ex_buffer 10))
              [0..<10]) = []"
proof -
  have h0: "(10::int) \<noteq> 0" by simp
  have h1: "b_err (uxst_bind_listener ex_globals ex_bind_env ex_listener ex_buffer 10)
              = ERR_NONE"
    by (simp add: bind_eval c_str_def NUL_def)
  have h2: "li_state (ex_listener\<lparr>li_state := LI_LISTEN, li_fd := 5\<rparr>) \<noteq> LI_ASSIGNED"
    by simp
  from C10_errmsg_cleared [OF h0, of ex_listener ex_globals ex_bind_env ex_buffer 10] h1
  have c1: "b_errmsg (uxst_bind_listener ex_globals ex_bind_env ex_listener ex_buffer 10)
       = ex_buffer(0 := NUL)
   \<and> c_str (map (b_errmsg (uxst_bind_listener ex_globals ex_bind_env ex_listener ex_buffer 10))
              [0..<10]) = []"
    by blast
  from C10_errmsg_cleared [OF h0, of "ex_listener\<lparr>li_state := LI_LISTEN, li_fd := 5\<rparr>"
                             ex_globals ex_bind_env ex_buffer 10] h2
  have "b_errmsg (uxst_bind_listener ex_globals ex_bind_env
        (ex_listener\<lparr>li_state := LI_LISTEN, li_fd := 5\<rparr>) ex_buffer 10) = ex_buffer(0 := NUL)"
    by blast
  then have c2: "b_errmsg (uxst_bind_listener ex_globals ex_bind_env
        (ex_listener\<lparr>li_state := LI_LISTEN, li_fd := 5\<rparr>) ex_buffer 10) 0 = NUL"
    by simp
  show ?thesis using h0 h1 h2 c1 c2 by blast
qed

section \<open>Pause and aggregation\<close>

text \<open>
  Claim C8.  For an abstract-named listener pause is the complete unbind and reports 0
  ("stopped"): it makes the call of \<open>do_unbind_listener\<close> and nothing else, the state
  afterwards is at most ASSIGNED, and the descriptor that the listener held is released, so
  that it is not open afterwards.  For a path-backed listener pause reports 1 ("paused"),
  changes nothing and makes no call.
\<close>

theorem C8_pause:
  "(first_byte (li_sun_path l) = NUL \<longrightarrow>
      fst (uxst_pause_listener l) = 0
    \<and> snd (uxst_pause_listener l) = do_unbind_listener l
    \<and> li_rank (li_state (fst (snd (uxst_pause_listener l)))) \<le> li_rank LI_ASSIGNED
    \<and> snd (snd (uxst_pause_listener l)) = [E_fd_delete (li_fd l)]
    \<and> open_fds (snd (snd (uxst_pause_listener l))) [li_fd l] = [])
   \<and> (first_byte (li_sun_path l) \<noteq> NUL \<longrightarrow> uxst_pause_listener l = (1, l, []))"
  by (simp add: uxst_pause_listener_def do_unbind_listener_def)

theorem C8_pause_witness:
  "first_byte (li_sun_path (ex_listener\<lparr>li_sun_path := [NUL, CHR ''a''],
                                        li_state := LI_LISTEN, li_fd := 5\<rparr>)) = NUL
   \<and> fst (uxst_pause_listener (ex_listener\<lparr>li_sun_path := [NUL, CHR ''a''],
                                           li_state := LI_LISTEN, li_fd := 5\<rparr>)) = 0
   \<and> li_state (fst (snd (uxst_pause_listener (ex_listener\<lparr>li_sun_path := [NUL, CHR ''a''],
                                           li_state := LI_LISTEN, li_fd := 5\<rparr>)))) = LI_ASSIGNED
   \<and> snd (snd (uxst_pause_listener (ex_listener\<lparr>li_sun_path := [NUL, CHR ''a''],
                                           li_state := LI_LISTEN, li_fd := 5\<rparr>)))
       = [E_fd_delete 5]
   \<and> open_fds (snd (snd (uxst_pause_listener (ex_listener\<lparr>li_sun_path := [NUL, CHR ''a''],
                                           li_state := LI_LISTEN, li_fd := 5\<rparr>)))) [5] = []
   \<and> first_byte (li_sun_path (ex_listener\<lparr>li_state := LI_LISTEN, li_fd := 5\<rparr>)) \<noteq> NUL
   \<and> uxst_pause_listener (ex_listener\<lparr>li_state := LI_LISTEN, li_fd := 5\<rparr>)
       = (1, ex_listener\<lparr>li_state := LI_LISTEN, li_fd := 5\<rparr>, [])"
  using C8_pause [of "ex_listener\<lparr>li_sun_path := [NUL, CHR ''a''],
                                  li_state := LI_LISTEN, li_fd := 5\<rparr>"]
    C8_pause [of "ex_listener\<lparr>li_state := LI_LISTEN, li_fd := 5\<rparr>"]
  by (simp add: ex_listener_def NUL_def uxst_pause_listener_def do_unbind_listener_def)

subsection \<open>Aggregation over the listeners of the protocol\<close>

lemma bind_loop_prefix:
  "\<exists>k\<le>length ls.
      bind_loop f ls err s
        = (case bind_every f (take k ls) err s of (e, ls', s') \<Rightarrow> (e, ls' @ drop k ls, s'))
    \<and> (k < length ls \<longrightarrow> fst (bind_loop f ls err s) AND ERR_ABORT \<noteq> 0)
    \<and> (\<forall>j. 0 < j \<and> j < k \<longrightarrow> fst (bind_every f (take j ls) err s) AND ERR_ABORT = 0)"
proof (induction ls arbitrary: err s)
  case Nil
  show ?case by simp
next
  case (Cons l ls)
  obtain e l' s' where f: "f l s = (e, l', s')" by (cases "f l s") auto
  show ?case
  proof (cases "(err OR e) AND ERR_ABORT \<noteq> 0")
    case True
    have "bind_loop f (l # ls) err s
        = (case bind_every f (take 1 (l # ls)) err s of
             (e, ls', s') \<Rightarrow> (e, ls' @ drop 1 (l # ls), s'))"
      using f True by simp
    moreover have "fst (bind_loop f (l # ls) err s) AND ERR_ABORT \<noteq> 0"
      using f True by simp
    ultimately show ?thesis
      by (intro exI [of _ 1]) simp
  next
    case False
    from Cons.IH [of "err OR e" s'] obtain k where k: "k \<le> length ls"
      "bind_loop f ls (err OR e) s'
        = (case bind_every f (take k ls) (err OR e) s' of
             (e, ls', s') \<Rightarrow> (e, ls' @ drop k ls, s'))"
      "k < length ls \<longrightarrow> fst (bind_loop f ls (err OR e) s') AND ERR_ABORT \<noteq> 0"
      "\<forall>j. 0 < j \<and> j < k \<longrightarrow>
           fst (bind_every f (take j ls) (err OR e) s') AND ERR_ABORT = 0"
      by blast
    have a: "bind_loop f (l # ls) err s
        = (case bind_every f (take (Suc k) (l # ls)) err s of
             (e, ls', s') \<Rightarrow> (e, ls' @ drop (Suc k) (l # ls), s'))"
      using f False k(2) by (simp split: prod.splits)
    have b: "Suc k < length (l # ls) \<longrightarrow> fst (bind_loop f (l # ls) err s) AND ERR_ABORT \<noteq> 0"
      using f False k(3) by (auto split: prod.splits)
    have c: "fst (bind_every f (take j (l # ls)) err s) AND ERR_ABORT = 0"
      if "0 < j" "j < Suc k" for j
    proof (cases j)
      case 0
      then show ?thesis using that by simp
    next
      case (Suc i)
      show ?thesis
      proof (cases i)
        case 0
        then show ?thesis using Suc f False by simp
      next
        case (Suc i')
        then have "fst (bind_every f (take i ls) (err OR e) s') AND ERR_ABORT = 0"
          using k(4) that \<open>j = Suc i\<close> by simp
        then show ?thesis using \<open>j = Suc i\<close> f by (auto split: prod.splits)
      qed
    qed
    show ?thesis using a b c k(1)
      by (intro exI [of _ "Suc k"]) simp
  qed
qed

lemma switch_no_abort:
  "b_err (bind_switch g env lv l errmsg errlen fd tr) AND ERR_ABORT = 0"
  by (simp add: bind_switch_def Let_def)

lemma listen_no_abort:
  "b_err (bind_listen g env lv l errmsg errlen fd tr) AND ERR_ABORT = 0"
  by (simp add: bind_listen_def switch_no_abort)

lemma bound_no_abort:
  "b_err (bind_bound g env lv l errmsg errlen fd tr) AND ERR_ABORT = 0"
  by (simp add: bind_bound_def listen_no_abort)

lemma fd_ready_no_abort:
  "b_err (bind_fd_ready g env lv l errmsg errlen fd addr tr) AND ERR_ABORT = 0"
  by (simp add: bind_fd_ready_def bound_no_abort)

lemma socket_no_abort:
  "b_err (bind_socket g env lv l errmsg errlen addr tr) AND ERR_ABORT = 0"
  by (simp add: bind_socket_def fd_ready_no_abort split: sysret.splits)

lemma path_files_no_abort:
  "b_err (bind_path_files g env lv l errmsg errlen tr) AND ERR_ABORT = 0"
  by (simp add: bind_path_files_def socket_no_abort)

lemma path_no_abort:
  "b_err (bind_path g env l errmsg errlen tr) AND ERR_ABORT = 0"
  by (simp add: bind_path_def path_files_no_abort)

lemma bind_no_abort:
  "b_err (uxst_bind_listener g env l errmsg errlen) AND ERR_ABORT = 0"
  by (simp add: uxst_bind_listener_def Let_def fd_ready_no_abort socket_no_abort path_no_abort)

lemma or_no_abort:
  "err AND ERR_ABORT = 0 \<Longrightarrow> e AND ERR_ABORT = 0 \<Longrightarrow> (err OR e) AND ERR_ABORT = 0"
  by (simp add: bit.conj_disj_distrib2)

lemma bind_loop_all:
  assumes "\<And>l s. fst (f l s) AND ERR_ABORT = 0" and "err AND ERR_ABORT = 0"
  shows "bind_loop f ls err s = bind_every f ls err s"
  using assms(2)
proof (induction ls arbitrary: err s)
  case Nil
  show ?case by simp
next
  case (Cons l ls)
  obtain e l' s' where f: "f l s = (e, l', s')" by (cases "f l s") auto
  have "e AND ERR_ABORT = 0" using assms(1) [of l s] f by simp
  then have "(err OR e) AND ERR_ABORT = 0" using Cons.prems by (rule or_no_abort [rotated])
  then show ?case using f Cons.IH [of "err OR e" s'] by simp
qed

lemma unbind_loop_map:
  "unbind_loop ls = (map (\<lambda>l. fst (snd (uxst_unbind_listener l))) ls,
                     concat (map (\<lambda>l. snd (snd (uxst_unbind_listener l))) ls))"
  by (induction ls) (simp_all split: prod.splits)

subsection \<open>What one bind does not take from the buffer\<close>

lemma switch_buf:
  "b_err (bind_switch g env lv l m errlen fd tr) = b_err (bind_switch g env lv l m' errlen fd tr)
   \<and> b_listener (bind_switch g env lv l m errlen fd tr)
       = b_listener (bind_switch g env lv l m' errlen fd tr)
   \<and> b_trace (bind_switch g env lv l m errlen fd tr)
       = b_trace (bind_switch g env lv l m' errlen fd tr)"
  by (simp add: bind_switch_def Let_def)

lemma listen_buf:
  "b_err (bind_listen g env lv l m errlen fd tr) = b_err (bind_listen g env lv l m' errlen fd tr)
   \<and> b_listener (bind_listen g env lv l m errlen fd tr)
       = b_listener (bind_listen g env lv l m' errlen fd tr)
   \<and> b_trace (bind_listen g env lv l m errlen fd tr)
       = b_trace (bind_listen g env lv l m' errlen fd tr)"
  using switch_buf [of g env lv l m errlen fd _ m'] by (simp add: bind_listen_def)

lemma bound_buf:
  "b_err (bind_bound g env lv l m errlen fd tr) = b_err (bind_bound g env lv l m' errlen fd tr)
   \<and> b_listener (bind_bound g env lv l m errlen fd tr)
       = b_listener (bind_bound g env lv l m' errlen fd tr)
   \<and> b_trace (bind_bound g env lv l m errlen fd tr)
       = b_trace (bind_bound g env lv l m' errlen fd tr)"
  using listen_buf [of g env lv l m errlen fd _ m'] by (simp add: bind_bound_def)

lemma fd_ready_buf:
  "b_err (bind_fd_ready g env lv l m errlen fd addr tr)
       = b_err (bind_fd_ready g env lv l m' errlen fd addr tr)
   \<and> b_listener (bind_fd_ready g env lv l m errlen fd addr tr)
       = b_listener (bind_fd_ready g env lv l m' errlen fd addr tr)
   \<and> b_trace (bind_fd_ready g env lv l m errlen fd addr tr)
       = b_trace (bind_fd_ready g env lv l m' errlen fd addr tr)"
  using bound_buf [of g env lv l m errlen fd _ m'] by (simp add: bind_fd_ready_def)

lemma socket_buf:
  "b_err (bind_socket g env lv l m errlen addr tr)
       = b_err (bind_socket g env lv l m' errlen addr tr)
   \<and> b_listener (bind_socket g env lv l m errlen addr tr)
       = b_listener (bind_socket g env lv l m' errlen addr tr)
   \<and> b_trace (bind_socket g env lv l m errlen addr tr)
       = b_trace (bind_socket g env lv l m' errlen addr tr)"
  using fd_ready_buf [of g env lv l m errlen _ addr _ m']
  by (simp add: bind_socket_def split: sysret.splits)

lemma path_files_buf:
  "b_err (bind_path_files g env lv l m errlen tr)
       = b_err (bind_path_files g env lv l m' errlen tr)
   \<and> b_listener (bind_path_files g env lv l m errlen tr)
       = b_listener (bind_path_files g env lv l m' errlen tr)
   \<and> b_trace (bind_path_files g env lv l m errlen tr)
       = b_trace (bind_path_files g env lv l m' errlen tr)"
  using socket_buf [of g env lv l m errlen _ _ m'] by (simp add: bind_path_files_def)

lemma path_buf:
  "b_err (bind_path g env l m errlen tr) = b_err (bind_path g env l m' errlen tr)
   \<and> b_listener (bind_path g env l m errlen tr) = b_listener (bind_path g env l m' errlen tr)
   \<and> b_trace (bind_path g env l m errlen tr) = b_trace (bind_path g env l m' errlen tr)"
  using path_files_buf [of g env _ l m errlen tr m'] by (simp add: bind_path_def)

lemma bind_buf:
  "b_err (uxst_bind_listener g env l m errlen) = b_err (uxst_bind_listener g env l m' errlen)
   \<and> b_listener (uxst_bind_listener g env l m errlen)
       = b_listener (uxst_bind_listener g env l m' errlen)
   \<and> b_trace (uxst_bind_listener g env l m errlen)
       = b_trace (uxst_bind_listener g env l m' errlen)"
proof -
  let ?m = "if errlen \<noteq> 0 then m(0 := NUL) else m"
  let ?m' = "if errlen \<noteq> 0 then m'(0 := NUL) else m'"
  show ?thesis
    using fd_ready_buf [of g env _ _ ?m errlen _ _ _ ?m']
      socket_buf [of g env _ _ ?m errlen _ _ ?m'] path_buf [of g env _ ?m errlen _ ?m']
    by (simp add: uxst_bind_listener_def Let_def)
qed

subsection \<open>The calls made by the loop over the listeners\<close>

lemma upt_add_Suc: "[c..<c + Suc n] = c # [Suc c..<Suc c + n]"
  by (simp add: upt_conv_Cons)

lemma bind_every_calls:
  "bind_every (bind_step g envs errlen) ls err w =
     (foldl (OR) err
        (map (\<lambda>(i, l). b_err (uxst_bind_listener g (envs i) l m0 errlen))
           (zip [w_calls w..<w_calls w + length ls] ls)),
      map (\<lambda>(i, l). b_listener (uxst_bind_listener g (envs i) l m0 errlen))
        (zip [w_calls w..<w_calls w + length ls] ls),
      \<lparr>w_errmsg = foldl (\<lambda>m (i, l). b_errmsg (uxst_bind_listener g (envs i) l m errlen))
                    (w_errmsg w) (zip [w_calls w..<w_calls w + length ls] ls),
       w_trace = w_trace w
         @ concat (map (\<lambda>(i, l). b_trace (uxst_bind_listener g (envs i) l m0 errlen))
                     (zip [w_calls w..<w_calls w + length ls] ls)),
       w_calls = w_calls w + length ls\<rparr>)"
proof (induction ls arbitrary: err w)
  case Nil
  show ?case by simp
next
  case (Cons l ls)
  let ?r = "uxst_bind_listener g (envs (w_calls w)) l (w_errmsg w) errlen"
  let ?w = "\<lparr>w_errmsg = b_errmsg ?r, w_trace = w_trace w @ b_trace ?r,
             w_calls = Suc (w_calls w)\<rparr>"
  have step: "bind_step g envs errlen l w = (b_err ?r, b_listener ?r, ?w)"
    by (simp add: bind_step_def Let_def)
  have same: "b_err ?r = b_err (uxst_bind_listener g (envs (w_calls w)) l m0 errlen)"
    "b_listener ?r = b_listener (uxst_bind_listener g (envs (w_calls w)) l m0 errlen)"
    "b_trace ?r = b_trace (uxst_bind_listener g (envs (w_calls w)) l m0 errlen)"
    using bind_buf [of g "envs (w_calls w)" l "w_errmsg w" errlen m0] by simp_all
  have "bind_every (bind_step g envs errlen) (l # ls) err w
      = (case bind_every (bind_step g envs errlen) ls (err OR b_err ?r) ?w of
           (err', ls', s'') \<Rightarrow> (err', b_listener ?r # ls', s''))"
    by (simp add: step)
  then show ?case
    unfolding Cons.IH [of "err OR b_err ?r" ?w] length_Cons add_Suc_right [symmetric]
      upt_add_Suc
    by (simp add: same)
qed

text \<open>
  Claim C9.  The loop of \<open>bind_all\<close>, for any per-listener call \<open>f\<close>: it visits the
  first \<open>k\<close> listeners in list order and accumulates their outcomes with bitwise OR, as
  \<open>bind_every\<close> does on that prefix, and leaves the others untouched; it stops before the
  end of the list only with the abort bit in the accumulated outcome, and no accumulated
  outcome before the last visit had the abort bit.

  \<open>bind_all\<close> itself calls \<open>uxst_bind_listener\<close> once for every listener of the
  protocol, in list order (the outcome of that function never has the abort bit): the
  \<open>i\<close>-th call is made on the \<open>i\<close>-th listener and answered by the \<open>i\<close>-th environment.
  The outcome is the bitwise OR of the outcomes of these calls, the listeners are left as the
  calls leave them, the calls made are those of the first bind, then those of the second,
  and so on, and the buffer is handed from each call to the next.  (The outcome, the
  listener and the calls of one bind do not depend on what the buffer holds, so they are
  written here with the buffer of the caller.)

  \<open>unbind_all\<close> applies the per-listener unbind to every listener, in order, and returns
  \<open>ERR_NONE\<close>.
\<close>

theorem C9_aggregation:
  "(\<exists>k\<le>length ls.
      bind_loop f ls ERR_NONE s
        = (case bind_every f (take k ls) ERR_NONE s of
             (e, ls', s') \<Rightarrow> (e, ls' @ drop k ls, s'))
    \<and> (k < length ls \<longrightarrow> fst (bind_loop f ls ERR_NONE s) AND ERR_ABORT \<noteq> 0)
    \<and> (\<forall>j. 0 < j \<and> j < k \<longrightarrow>
          fst (bind_every f (take j ls) ERR_NONE s) AND ERR_ABORT = 0))
   \<and> uxst_bind_listeners g envs proto errmsg errlen
       = (foldl (OR) ERR_NONE
            (map (\<lambda>(i, l). b_err (uxst_bind_listener g (envs i) l errmsg errlen))
               (zip [0..<length (listeners proto)] (listeners proto))),
          proto\<lparr>listeners :=
            map (\<lambda>(i, l). b_listener (uxst_bind_listener g (envs i) l errmsg errlen))
              (zip [0..<length (listeners proto)] (listeners proto))\<rparr>,
          \<lparr>w_errmsg =
             foldl (\<lambda>m (i, l). b_errmsg (uxst_bind_listener g (envs i) l m errlen)) errmsg
               (zip [0..<length (listeners proto)] (listeners proto)),
           w_trace =
             concat (map (\<lambda>(i, l). b_trace (uxst_bind_listener g (envs i) l errmsg errlen))
                       (zip [0..<length (listeners proto)] (listeners proto))),
           w_calls = length (listeners proto)\<rparr>)
   \<and> uxst_unbind_listeners proto
       = (ERR_NONE,
          proto\<lparr>listeners := map (\<lambda>l. fst (snd (uxst_unbind_listener l))) (listeners proto)\<rparr>,
          concat (map (\<lambda>l. snd (snd (uxst_unbind_listener l))) (listeners proto)))"
proof -
  let ?w = "\<lparr>w_errmsg = errmsg, w_trace = [], w_calls = 0\<rparr>"
  have "fst (bind_step g envs errlen l w) AND ERR_ABORT = 0" for l w
    by (simp add: bind_step_def Let_def bind_no_abort)
  then have "bind_loop (bind_step g envs errlen) (listeners proto) ERR_NONE ?w
           = bind_every (bind_step g envs errlen) (listeners proto) ERR_NONE ?w"
    by (rule bind_loop_all) simp
  then have b: "uxst_bind_listeners g envs proto errmsg errlen
       = (foldl (OR) ERR_NONE
            (map (\<lambda>(i, l). b_err (uxst_bind_listener g (envs i) l errmsg errlen))
               (zip [0..<length (listeners proto)] (listeners proto))),
          proto\<lparr>listeners :=
            map (\<lambda>(i, l). b_listener (uxst_bind_listener g (envs i) l errmsg errlen))
              (zip [0..<length (listeners proto)] (listeners proto))\<rparr>,
          \<lparr>w_errmsg =
             foldl (\<lambda>m (i, l). b_errmsg (uxst_bind_listener g (envs i) l m errlen)) errmsg
               (zip [0..<length (listeners proto)] (listeners proto)),
           w_trace =
             concat (map (\<lambda>(i, l). b_trace (uxst_bind_listener g (envs i) l errmsg errlen))
                       (zip [0..<length (listeners proto)] (listeners proto))),
           w_calls = length (listeners proto)\<rparr>)"
    unfolding uxst_bind_listeners_def
    by (simp add: bind_every_calls [of g envs errlen "listeners proto" ERR_NONE ?w errmsg])
  have u: "uxst_unbind_listeners proto
       = (ERR_NONE,
          proto\<lparr>listeners := map (\<lambda>l. fst (snd (uxst_unbind_listener l))) (listeners proto)\<rparr>,
          concat (map (\<lambda>l. snd (snd (uxst_unbind_listener l))) (listeners proto)))"
    by (simp add: uxst_unbind_listeners_def unbind_loop_map)
  show ?thesis using bind_loop_prefix [of ls f ERR_NONE s] b u by blast
qed

theorem C9_aggregation_witness:
  "fst (uxst_bind_listeners ex_globals
          (\<lambda>n. if n = 0 then ex_bind_env\<lparr>be_bind := Err EADDRINUSE\<rparr>
               else ex_bind_env\<lparr>be_socket := Ret 6\<rparr>)
          \<lparr>listeners = [ex_listener, ex_listener\<lparr>li_sun_path := [NUL, CHR ''a'']\<rparr>],
           nb_listeners = 2\<rparr> ex_buffer 0)
     = ERR_RETRYABLE OR ERR_ALERT
   \<and> map (\<lambda>l. (li_state l, li_fd l))
       (listeners (fst (snd (uxst_bind_listeners ex_globals
          (\<lambda>n. if n = 0 then ex_bind_env\<lparr>be_bind := Err EADDRINUSE\<rparr>
               else ex_bind_env\<lparr>be_socket := Ret 6\<rparr>)
          \<lparr>listeners = [ex_listener, ex_listener\<lparr>li_sun_path := [NUL, CHR ''a'']\<rparr>],
           nb_listeners = 2\<rparr> ex_buffer 0))))
     = [(LI_ASSIGNED, - 1), (LI_LISTEN, 6)]
   \<and> filter (\<lambda>e. is_socket e \<or> is_close e)
       (w_trace (snd (snd (uxst_bind_listeners ex_globals
          (\<lambda>n. if n = 0 then ex_bind_env\<lparr>be_bind := Err EADDRINUSE\<rparr>
               else ex_bind_env\<lparr>be_socket := Ret 6\<rparr>)
          \<lparr>listeners = [ex_listener, ex_listener\<lparr>li_sun_path := [NUL, CHR ''a'']\<rparr>],
           nb_listeners = 2\<rparr> ex_buffer 0))))
     = [E_socket 5, E_close 5, E_socket 6]
   \<and> w_calls (snd (snd (uxst_bind_listeners ex_globals
          (\<lambda>n. if n = 0 then ex_bind_env\<lparr>be_bind := Err EADDRINUSE\<rparr>
               else ex_bind_env\<lparr>be_socket := Ret 6\<rparr>)
          \<lparr>listeners = [ex_listener, ex_listener\<lparr>li_sun_path := [NUL, CHR ''a'']\<rparr>],
           nb_listeners = 2\<rparr> ex_buffer 0))) = 2
   \<and> bind_loop (\<lambda>l s. (ERR_ABORT, l, s)) [ex_listener, ex_listener] ERR_NONE ()
     = (ERR_ABORT, [ex_listener, ex_listener], ())
   \<and> fst (uxst_unbind_listeners
       \<lparr>listeners = [ex_listener\<lparr>li_state := LI_LISTEN, li_fd := 5\<rparr>, ex_listener],
        nb_listeners = 2\<rparr>) = ERR_NONE
   \<and> map li_state (listeners (fst (snd (uxst_unbind_listeners
       \<lparr>listeners = [ex_listener\<lparr>li_state := LI_LISTEN, li_fd := 5\<rparr>, ex_listener],
        nb_listeners = 2\<rparr>)))) = [LI_ASSIGNED, LI_ASSIGNED]
   \<and> snd (snd (uxst_unbind_listeners
       \<lparr>listeners = [ex_listener\<lparr>li_state := LI_LISTEN, li_fd := 5\<rparr>, ex_listener],
        nb_listeners = 2\<rparr>)) = [E_fd_delete 5]"
proof -
  let ?envs = "\<lambda>n::nat. if n = 0 then ex_bind_env\<lparr>be_bind := Err EADDRINUSE\<rparr>
               else ex_bind_env\<lparr>be_socket := Ret 6\<rparr>"
  let ?P = "\<lparr>listeners = [ex_listener, ex_listener\<lparr>li_sun_path := [NUL, CHR ''a'']\<rparr>],
             nb_listeners = 2\<rparr>"
  let ?Q = "\<lparr>listeners = [ex_listener\<lparr>li_state := LI_LISTEN, li_fd := 5\<rparr>, ex_listener],
             nb_listeners = 2\<rparr>"
  let ?R = "uxst_bind_listeners ex_globals ?envs ?P ex_buffer 0"
  note c9 = C9_aggregation [of "[ex_listener, ex_listener]" "\<lambda>l s. (ERR_ABORT, l, s)" "()"
      ex_globals ?envs ?P ex_buffer 0]
  have e1: "fst ?R = ERR_RETRYABLE OR ERR_ALERT"
    by (simp add: uxst_bind_listeners_def bind_step_def bind_eval c_str_def NUL_def
          ERR_NONE_def ERR_RETRYABLE_def ERR_ALERT_def ERR_FATAL_def ERR_ABORT_def)
  have e2: "map (\<lambda>l. (li_state l, li_fd l)) (listeners (fst (snd ?R)))
           = [(LI_ASSIGNED, - 1), (LI_LISTEN, 6)]"
    by (simp add: uxst_bind_listeners_def bind_step_def bind_eval c_str_def NUL_def
          ERR_NONE_def ERR_RETRYABLE_def ERR_ALERT_def ERR_FATAL_def ERR_ABORT_def)
  have e3: "filter (\<lambda>e. is_socket e \<or> is_close e) (w_trace (snd (snd ?R)))
           = [E_socket 5, E_close 5, E_socket 6]"
    by (simp add: uxst_bind_listeners_def bind_step_def bind_eval c_str_def NUL_def
          ERR_NONE_def ERR_RETRYABLE_def ERR_ALERT_def ERR_FATAL_def ERR_ABORT_def)
  from c9 have "w_calls (snd (snd ?R)) = length (listeners ?P)" by simp
  then have e4: "w_calls (snd (snd ?R)) = 2" by simp
  have e5: "bind_loop (\<lambda>l s. (ERR_ABORT, l, s)) [ex_listener, ex_listener] ERR_NONE ()
     = (ERR_ABORT, [ex_listener, ex_listener], ())"
    by (simp add: ERR_ABORT_def ERR_NONE_def)
  from C9_aggregation [of "[ex_listener, ex_listener]" "\<lambda>l s. (ERR_ABORT, l, s)" "()"
      ex_globals ?envs ?Q ex_buffer 0]
  have e6: "fst (uxst_unbind_listeners ?Q) = ERR_NONE" by simp
  have e7: "map li_state (listeners (fst (snd (uxst_unbind_listeners ?Q))))
              = [LI_ASSIGNED, LI_ASSIGNED]"
    "snd (snd (uxst_unbind_listeners ?Q)) = [E_fd_delete 5]"
    by (simp_all add: uxst_unbind_listeners_def uxst_unbind_listener_def unbind_listener_def
          do_unbind_listener_def ex_listener_def)
  show ?thesis using e1 e2 e3 e4 e5 e6 e7 by blast
qed

end
